theory Spec2Isabelle
  imports Complex_Main
begin

section \<open>Data model of the chat adapter (services/llm.ts)\<close>

text \<open>
  JavaScript strings are modelled as \<open>string\<close> (a list of characters), template
  literals and \<open>+=\<close> as list append. The two string-literal union types of the source
  are datatypes.
\<close>

datatype Role = User | Assistant

datatype AttachmentType = Image_att | Document_att

record Attachment =
  att_type :: AttachmentType
  att_data :: string
  att_name :: string
  mimeType :: string
  att_size :: nat

text \<open>
  Timestamps are kept as the millisecond count of the \<open>Date\<close> they were taken from;
  \<open>toISOString\<close> renders that count and is the only thing done with it.
  An optional field (\<open>attachments?\<close>) is an \<open>option\<close>.
\<close>

record Message =
  msg_id :: string
  role :: Role
  content :: string
  timestamp :: nat
  attachments :: "Attachment list option"

record ChatSession =
  session_id :: string
  containerId :: string
  messages :: "Message list"
  createdAt :: nat
  updatedAt :: nat

section \<open>Content normalizer\<close>

text \<open>The content parts of the three wire formats.\<close>

datatype openai_part = OText string | OImageUrl string

datatype anthropic_part = AText string | AImage string string

datatype gemini_part = GText string | GInlineData string string

text \<open>
  The template literal
  \<^verbatim>\<open>`\n\nDocument "${attachment.name}" content:\n${decodedText}`\<close>
  that all three builders share. \<open>CHR 0x0A\<close> is the line feed, \<open>CHR 0x22\<close> the
  double quote.
\<close>

definition documentText :: "string \<Rightarrow> string \<Rightarrow> string" where
  "documentText nm decodedText =
     [CHR 0x0A, CHR 0x0A] @ ''Document '' @ [CHR 0x22] @ nm @ [CHR 0x22] @
     '' content:'' @ [CHR 0x0A] @ decodedText"

text \<open>
  \<open>Buffer.from(data, "base64").toString("utf-8")\<close> belongs to the runtime, not to the
  repository: the builders take it as the parameter \<open>dec\<close>.
  Each builder starts from the one-element array holding the primary text part and
  pushes one part per attachment, in the order of the list.
\<close>

definition buildMessageContent_step ::
    "(string \<Rightarrow> string) \<Rightarrow> openai_part list \<Rightarrow> Attachment \<Rightarrow> openai_part list" where
  "buildMessageContent_step dec cont a =
     (if att_type a = Image_att then
        cont @ [OImageUrl (''data:'' @ mimeType a @ '';base64,'' @ att_data a)]
      else if att_type a = Document_att then
        cont @ [OText (documentText (att_name a) (dec (att_data a)))]
      else cont)"

definition buildMessageContent ::
    "(string \<Rightarrow> string) \<Rightarrow> string \<Rightarrow> Attachment list \<Rightarrow> openai_part list" where
  "buildMessageContent dec message atts =
     foldl (buildMessageContent_step dec) [OText message] atts"

definition buildAnthropicContent_step ::
    "(string \<Rightarrow> string) \<Rightarrow> anthropic_part list \<Rightarrow> Attachment \<Rightarrow> anthropic_part list" where
  "buildAnthropicContent_step dec cont a =
     (if att_type a = Image_att then cont @ [AImage (mimeType a) (att_data a)]
      else if att_type a = Document_att then
        cont @ [AText (documentText (att_name a) (dec (att_data a)))]
      else cont)"

definition buildAnthropicContent ::
    "(string \<Rightarrow> string) \<Rightarrow> string \<Rightarrow> Attachment list \<Rightarrow> anthropic_part list" where
  "buildAnthropicContent dec message atts =
     foldl (buildAnthropicContent_step dec) [AText message] atts"

definition buildGeminiParts_step ::
    "(string \<Rightarrow> string) \<Rightarrow> gemini_part list \<Rightarrow> Attachment \<Rightarrow> gemini_part list" where
  "buildGeminiParts_step dec parts a =
     (if att_type a = Image_att then parts @ [GInlineData (mimeType a) (att_data a)]
      else if att_type a = Document_att then
        parts @ [GText (documentText (att_name a) (dec (att_data a)))]
      else parts)"

definition buildGeminiParts ::
    "(string \<Rightarrow> string) \<Rightarrow> string \<Rightarrow> Attachment list \<Rightarrow> gemini_part list" where
  "buildGeminiParts dec message atts =
     foldl (buildGeminiParts_step dec) [GText message] atts"

text \<open>The part each attachment turns into, per provider.\<close>

definition openai_part_of :: "(string \<Rightarrow> string) \<Rightarrow> Attachment \<Rightarrow> openai_part" where
  "openai_part_of dec a =
     (case att_type a of
        Image_att \<Rightarrow> OImageUrl (''data:'' @ mimeType a @ '';base64,'' @ att_data a)
      | Document_att \<Rightarrow> OText (documentText (att_name a) (dec (att_data a))))"

definition anthropic_part_of :: "(string \<Rightarrow> string) \<Rightarrow> Attachment \<Rightarrow> anthropic_part" where
  "anthropic_part_of dec a =
     (case att_type a of
        Image_att \<Rightarrow> AImage (mimeType a) (att_data a)
      | Document_att \<Rightarrow> AText (documentText (att_name a) (dec (att_data a))))"

definition gemini_part_of :: "(string \<Rightarrow> string) \<Rightarrow> Attachment \<Rightarrow> gemini_part" where
  "gemini_part_of dec a =
     (case att_type a of
        Image_att \<Rightarrow> GInlineData (mimeType a) (att_data a)
      | Document_att \<Rightarrow> GText (documentText (att_name a) (dec (att_data a))))"

text \<open>
  The label as the specification words it, without the two leading line feeds:
  \<^verbatim>\<open>Document "<name>" content:\n<decoded-utf8>\<close>.
\<close>

definition specDocumentText :: "string \<Rightarrow> string \<Rightarrow> string" where
  "specDocumentText nm decodedText =
     ''Document '' @ [CHR 0x22] @ nm @ [CHR 0x22] @ '' content:'' @ [CHR 0x0A] @ decodedText"

section \<open>Provider configuration (services/ai-config.ts)\<close>

datatype AiProvider = OpenAI | OpenRouter | Anthropic | GoogleGemini

text \<open>
  A JavaScript number, as far as the configuration code looks at it: it is tested for
  \<open>NaN\<close>, for truthiness and compared with \<open>0\<close> and \<open>2\<close>. A finite double is
  represented by the real number it denotes.
\<close>

datatype number = NaN | NegInf | Fin real | PosInf

fun num_lt :: "number \<Rightarrow> number \<Rightarrow> bool" where
  "num_lt NaN _ = False"
| "num_lt _ NaN = False"
| "num_lt NegInf NegInf = False"
| "num_lt NegInf _ = True"
| "num_lt (Fin a) (Fin b) = (a < b)"
| "num_lt (Fin _) PosInf = True"
| "num_lt (Fin _) NegInf = False"
| "num_lt PosInf _ = False"

definition Number_isNaN :: "number \<Rightarrow> bool" where
  "Number_isNaN n = (n = NaN)"

text \<open>\<open>x || d\<close> on an optional number: \<open>undefined\<close>, \<open>NaN\<close> and zero are falsy.\<close>

definition or_num :: "number option \<Rightarrow> number \<Rightarrow> number" where
  "or_num x d =
     (case x of None \<Rightarrow> d
      | Some n \<Rightarrow> if n = NaN \<or> n = Fin 0 then d else n)"

text \<open>\<open>x ?? d\<close>: only \<open>undefined\<close> gives the default.\<close>

definition nullish_num :: "number option \<Rightarrow> number \<Rightarrow> number" where
  "nullish_num x d = (case x of None \<Rightarrow> d | Some n \<Rightarrow> n)"

text \<open>\<open>x || d\<close> on an optional string: \<open>undefined\<close> and the empty string are falsy.\<close>

definition or_else :: "string option \<Rightarrow> string \<Rightarrow> string" where
  "or_else x d = (case x of None \<Rightarrow> d | Some s \<Rightarrow> if s = [] then d else s)"

text \<open>
  \<open>String.prototype.trim\<close>. A character of the model is a code unit below 256; of
  JavaScript's white space and line terminators these are tab, line feed, vertical tab,
  form feed, carriage return, space and the no-break space.
\<close>

definition is_ws :: "char \<Rightarrow> bool" where
  "is_ws c = (c \<in> {CHR 0x09, CHR 0x0A, CHR 0x0B, CHR 0x0C, CHR 0x0D, CHR 0x20, CHR 0xA0})"

definition trim :: "string \<Rightarrow> string" where
  "trim s = rev (dropWhile is_ws (rev (dropWhile is_ws s)))"

record AiConfig =
  provider :: AiProvider
  apiKey :: string
  baseUrl :: "string option"
  model :: string
  temperature :: "number option"

text \<open>\<open>Partial<AiConfig>\<close>: every field may be absent.\<close>

record PartialAiConfig =
  p_provider :: "AiProvider option"
  p_apiKey :: "string option"
  p_baseUrl :: "string option"
  p_model :: "string option"
  p_temperature :: "number option"

record ProviderMetadata =
  pm_id :: AiProvider
  pm_name :: string
  description :: string
  defaultBaseUrl :: string
  documentationUrl :: string
  supportsStreaming :: bool

definition providerMetadata :: "ProviderMetadata list" where
  "providerMetadata =
     [\<lparr>pm_id = OpenAI, pm_name = ''OpenAI'',
       description = ''ChatGPT and GPT-4 family with native streaming'',
       defaultBaseUrl = ''https://api.openai.com/v1'',
       documentationUrl = ''https://platform.openai.com/docs/overview'',
       supportsStreaming = True\<rparr>,
      \<lparr>pm_id = OpenRouter, pm_name = ''OpenRouter'',
       description = ''Unified access to multiple models with OpenAI-compatible API'',
       defaultBaseUrl = ''https://openrouter.ai/api/v1'',
       documentationUrl = ''https://openrouter.ai/docs'',
       supportsStreaming = True\<rparr>,
      \<lparr>pm_id = Anthropic, pm_name = ''Anthropic Claude'',
       description = ''Claude 3 family with native JSON and vision support'',
       defaultBaseUrl = ''https://api.anthropic.com'',
       documentationUrl = ''https://docs.anthropic.com/claude/reference'',
       supportsStreaming = False\<rparr>,
      \<lparr>pm_id = GoogleGemini, pm_name = ''Google Gemini'',
       description = ''Gemini models with native multimodal capabilities'',
       defaultBaseUrl = ''https://generativelanguage.googleapis.com/v1beta'',
       documentationUrl = ''https://ai.google.dev/gemini-api/docs'',
       supportsStreaming = False\<rparr>]"

text \<open>
  \<open>normalizeConfig\<close>. On a value of type \<open>number\<close> the conversion \<open>Number(...)\<close> is
  the identity.
\<close>

definition normalizeConfig :: "PartialAiConfig \<Rightarrow> AiConfig" where
  "normalizeConfig raw =
     (let prov = (case p_provider raw of Some p \<Rightarrow> p | None \<Rightarrow> OpenAI);
          providerDefaults = find (\<lambda>item. pm_id item = prov) providerMetadata;
          base = or_else (map_option trim (p_baseUrl raw))
                   (or_else (map_option defaultBaseUrl providerDefaults)
                      ''https://api.openai.com/v1'');
          temp = (case p_temperature raw of None \<Rightarrow> Fin 0.2 | Some t \<Rightarrow> t)
      in \<lparr>provider = prov,
          apiKey = or_else (map_option trim (p_apiKey raw)) [],
          baseUrl = Some base,
          model = or_else (map_option trim (p_model raw)) ''gpt-4o-mini'',
          temperature = Some temp\<rparr>)"

text \<open>The object spread \<open>{ ...current, ...update }\<close>: a field of \<open>update\<close> wins when present.\<close>

definition spread :: "AiConfig \<Rightarrow> PartialAiConfig \<Rightarrow> PartialAiConfig" where
  "spread current update =
     \<lparr>p_provider = (case p_provider update of Some v \<Rightarrow> Some v | None \<Rightarrow> Some (provider current)),
      p_apiKey = (case p_apiKey update of Some v \<Rightarrow> Some v | None \<Rightarrow> Some (apiKey current)),
      p_baseUrl = (case p_baseUrl update of Some v \<Rightarrow> Some v | None \<Rightarrow> baseUrl current),
      p_model = (case p_model update of Some v \<Rightarrow> Some v | None \<Rightarrow> Some (model current)),
      p_temperature =
        (case p_temperature update of Some v \<Rightarrow> Some v | None \<Rightarrow> temperature current)\<rparr>"

definition emptyPartial :: PartialAiConfig where
  "emptyPartial =
     \<lparr>p_provider = None, p_apiKey = None, p_baseUrl = None, p_model = None,
      p_temperature = None\<rparr>"

section \<open>Errors, provider wire types and the environment\<close>

text \<open>
  A thrown value: a plain \<open>Error\<close> with its message, or a file-system error with its
  \<open>code\<close> and message.
\<close>

datatype error = Error string | ErrnoError string string

definition error_code :: "error \<Rightarrow> string option" where
  "error_code e = (case e of Error _ \<Rightarrow> None | ErrnoError c _ \<Rightarrow> Some c)"

datatype openai_content = Plain string | Parts "openai_part list"

record openai_message =
  o_role :: string
  o_content :: openai_content

record anthropic_message =
  a_role :: string
  a_content :: "anthropic_part list"

record gemini_content =
  g_role :: string
  g_parts :: "gemini_part list"

record openai_request =
  oa_apiKey :: string
  oa_baseURL :: string
  oa_model :: string
  oa_messages :: "openai_message list"
  oa_temperature :: "number option"
  oa_stream :: bool

record anthropic_request =
  an_apiKey :: string
  an_baseURL :: "string option"
  an_model :: string
  an_max_tokens :: nat
  an_temperature :: number
  an_system :: string
  an_messages :: "anthropic_message list"

record gemini_payload =
  contents :: "gemini_content list"
  systemInstruction :: string
  generationConfig_temperature :: number

text \<open>
  What the providers answer.
  A completion is its list of choices, each given by \<open>message?.content\<close> (absent or
  \<open>null\<close> is \<open>None\<close>); a stream chunk is its list of choices, each given by
  \<open>delta.content\<close>. An Anthropic response is its list of content blocks. A Gemini answer
  is \<open>response.ok\<close> with the parsed body: \<open>error?.message\<close> and, per candidate,
  \<open>content?.parts\<close> with the \<open>text\<close> of each part.
\<close>

type_synonym completion = "string option list"

type_synonym chunk = "string option list"

datatype content_block = TextBlock string | OtherBlock

record gemini_data =
  g_error_message :: "string option"
  g_candidates :: "string option list option list"

text \<open>
  Everything outside the two modules. The clock is the sequence of its readings:
  \<open>clk k\<close> is what the \<open>k\<close>-th \<open>Date.now()\<close> or \<open>new Date()\<close> of the process
  returns. \<open>getFileContentTree\<close> gives the tree already serialized by
  \<open>JSON.stringify(tree, null, 2)\<close>. \<open>readConfigFile\<close> is \<open>readFile\<close> followed by
  \<open>JSON.parse\<close>; \<open>writeConfigFile\<close> is \<open>mkdir\<close> followed by \<open>writeFile\<close>.
  A streaming completion is a finite list of chunks, ended normally or by an error.
\<close>

record env =
  clk :: "nat \<Rightarrow> nat"
  decodeBase64Utf8 :: "string \<Rightarrow> string"
  encodeURIComponent :: "string \<Rightarrow> string"
  prompt_txt :: string
  getFileContentTree :: "string \<Rightarrow> error + string"
  readConfigFile :: "error + PartialAiConfig"
  writeConfigFile :: "AiConfig \<Rightarrow> error option"
  openai_create :: "openai_request \<Rightarrow> error + completion"
  openai_create_stream :: "openai_request \<Rightarrow> error + (chunk list \<times> error option)"
  anthropic_create :: "anthropic_request \<Rightarrow> error + content_block list"
  gemini_fetch :: "string \<Rightarrow> gemini_payload \<Rightarrow> error + (bool \<times> gemini_data)"

text \<open>
  The mutable state of the process: the session objects live in a store of addresses,
  \<open>chatSessions\<close> is the \<open>Map\<close> from session ids to them in insertion order,
  \<open>cachedConfig\<close> the cache of ai-config.ts, \<open>tick\<close> the number of clock readings so far.
\<close>

record state =
  heap :: "nat \<Rightarrow> ChatSession"
  nextAddr :: nat
  chatSessions :: "(string \<times> nat) list"
  cachedConfig :: "AiConfig option"
  tick :: nat

definition Date_now :: "env \<Rightarrow> state \<Rightarrow> nat \<times> state" where
  "Date_now e st = (clk e (tick st), st\<lparr>tick := Suc (tick st)\<rparr>)"

text \<open>The decimal digits of a number, as a template literal prints it.\<close>

function string_of_nat :: "nat \<Rightarrow> string" where
  "string_of_nat n =
     (if n < 10 then [''0123456789'' ! n]
      else string_of_nat (n div 10) @ [''0123456789'' ! (n mod 10)])"
  by pat_completeness auto
termination
  by (relation "measure (\<lambda>n. n)") auto

declare string_of_nat.simps [simp del]

subsection \<open>ai-config.ts: reading and updating the configuration\<close>

definition readConfig :: "env \<Rightarrow> error + AiConfig" where
  "readConfig e =
     (case readConfigFile e of
        Inr parsed \<Rightarrow> Inr (normalizeConfig parsed)
      | Inl err \<Rightarrow>
          if error_code err = Some ''ENOENT'' then
            (let defaults = normalizeConfig emptyPartial
             in case writeConfigFile e defaults of
                  Some werr \<Rightarrow> Inl werr
                | None \<Rightarrow> Inr defaults)
          else Inl err)"

definition getAiConfig :: "env \<Rightarrow> state \<Rightarrow> (error + AiConfig) \<times> state" where
  "getAiConfig e st =
     (case cachedConfig st of
        Some c \<Rightarrow> (Inr c, st)
      | None \<Rightarrow>
          (case readConfig e of
             Inl err \<Rightarrow> (Inl err, st)
           | Inr c \<Rightarrow> (Inr c, st\<lparr>cachedConfig := Some c\<rparr>)))"

definition updateAiConfig ::
    "env \<Rightarrow> state \<Rightarrow> PartialAiConfig \<Rightarrow> (error + AiConfig) \<times> state" where
  "updateAiConfig e st update =
     (case getAiConfig e st of
        (Inl err, st1) \<Rightarrow> (Inl err, st1)
      | (Inr current, st1) \<Rightarrow>
          (let merged = normalizeConfig (spread current update) in
           if apiKey merged = [] then (Inl (Error ''API key is required''), st1)
           else if model merged = [] then (Inl (Error ''Model is required''), st1)
           else if Number_isNaN (or_num (temperature merged) (Fin 0)) then
             (Inl (Error ''Temperature must be a number''), st1)
           else if (case temperature merged of
                      None \<Rightarrow> False
                    | Some t \<Rightarrow> num_lt t (Fin 0) \<or> num_lt (Fin 2) t) then
             (Inl (Error ''Temperature must be between 0 and 2''), st1)
           else
             (let st2 = st1\<lparr>cachedConfig := Some merged\<rparr>
              in case writeConfigFile e merged of
                   Some werr \<Rightarrow> (Inl werr, st2)
                 | None \<Rightarrow> (Inr merged, st2))))"

section \<open>Session store\<close>

text \<open>
  \<open>Map.prototype.set\<close>: an existing key keeps its place and gets the new value, a new
  key goes to the end.
\<close>

fun Map_set :: "('k \<times> 'v) list \<Rightarrow> 'k \<Rightarrow> 'v \<Rightarrow> ('k \<times> 'v) list" where
  "Map_set [] k v = [(k, v)]"
| "Map_set ((k', v') # kvs) k v =
     (if k' = k then (k, v) # kvs else (k', v') # Map_set kvs k v)"

text \<open>
  Both \<open>createChatSession\<close> and \<open>getOrCreateChatSession\<close> build the session the same
  way: three readings of the clock (the id, \<open>createdAt\<close>, \<open>updatedAt\<close>), a fresh
  object, and its registration under the id. They return the address of the object.
\<close>

definition createChatSession :: "env \<Rightarrow> state \<Rightarrow> string \<Rightarrow> nat \<times> state" where
  "createChatSession e st cid =
     (let (t0, st1) = Date_now e st;
          sessionId = cid @ ''-'' @ string_of_nat t0;
          (t1, st2) = Date_now e st1;
          (t2, st3) = Date_now e st2;
          session = \<lparr>session_id = sessionId, containerId = cid, messages = [],
                     createdAt = t1, updatedAt = t2\<rparr>;
          a = nextAddr st3
      in (a, st3\<lparr>heap := (heap st3)(a := session), nextAddr := Suc a,
                  chatSessions := Map_set (chatSessions st3) sessionId a\<rparr>))"

definition getChatSession :: "state \<Rightarrow> string \<Rightarrow> nat option" where
  "getChatSession st sessionId = map_of (chatSessions st) sessionId"

definition getOrCreateChatSession :: "env \<Rightarrow> state \<Rightarrow> string \<Rightarrow> nat \<times> state" where
  "getOrCreateChatSession e st cid =
     (case find (\<lambda>a. containerId (heap st a) = cid) (map snd (chatSessions st)) of
        Some existingSession \<Rightarrow> (existingSession, st)
      | None \<Rightarrow>
          (let (t0, st1) = Date_now e st;
               sessionId = cid @ ''-'' @ string_of_nat t0;
               (t1, st2) = Date_now e st1;
               (t2, st3) = Date_now e st2;
               session = \<lparr>session_id = sessionId, containerId = cid, messages = [],
                          createdAt = t1, updatedAt = t2\<rparr>;
               a = nextAddr st3
           in (a, st3\<lparr>heap := (heap st3)(a := session), nextAddr := Suc a,
                       chatSessions := Map_set (chatSessions st3) sessionId a\<rparr>)))"

text \<open>\<open>session.messages.push(msg)\<close> on the object at address \<open>p\<close>.\<close>

definition push_message :: "state \<Rightarrow> nat \<Rightarrow> Message \<Rightarrow> state" where
  "push_message st p msg =
     st\<lparr>heap := (heap st)(p := (heap st p)\<lparr>messages := messages (heap st p) @ [msg]\<rparr>)\<rparr>"

section \<open>History translation\<close>

definition role_string :: "Role \<Rightarrow> string" where
  "role_string r = (case r of User \<Rightarrow> ''user'' | Assistant \<Rightarrow> ''assistant'')"

definition toOpenAIMessages ::
    "(string \<Rightarrow> string) \<Rightarrow> string \<Rightarrow> Message list \<Rightarrow> openai_message list" where
  "toOpenAIMessages dec systemPrompt msgs =
     \<lparr>o_role = ''system'', o_content = Plain systemPrompt\<rparr> #
     map (\<lambda>msg. \<lparr>o_role = role_string (role msg),
                 o_content =
                   (case attachments msg of
                      Some atts \<Rightarrow>
                        if role msg = User then Parts (buildMessageContent dec (content msg) atts)
                        else Plain (content msg)
                    | None \<Rightarrow> Plain (content msg))\<rparr>) msgs"

definition toAnthropicMessages ::
    "(string \<Rightarrow> string) \<Rightarrow> Message list \<Rightarrow> anthropic_message list" where
  "toAnthropicMessages dec msgs =
     map (\<lambda>msg. \<lparr>a_role = role_string (role msg),
                 a_content =
                   (case attachments msg of
                      Some atts \<Rightarrow>
                        if role msg = User then buildAnthropicContent dec (content msg) atts
                        else [AText (content msg)]
                    | None \<Rightarrow> [AText (content msg)])\<rparr>) msgs"

definition toGeminiHistory ::
    "(string \<Rightarrow> string) \<Rightarrow> Message list \<Rightarrow> gemini_content list" where
  "toGeminiHistory dec msgs =
     map (\<lambda>msg. \<lparr>g_role = (if role msg = Assistant then ''model'' else ''user''),
                 g_parts =
                   (case attachments msg of
                      Some atts \<Rightarrow>
                        if role msg = User then buildGeminiParts dec (content msg) atts
                        else [GText (content msg)]
                    | None \<Rightarrow> [GText (content msg)])\<rparr>) msgs"

definition getSystemPrompt :: "env \<Rightarrow> string \<Rightarrow> error + string" where
  "getSystemPrompt e cid =
     (case getFileContentTree e cid of
        Inl err \<Rightarrow> Inl err
      | Inr codeContext \<Rightarrow>
          Inr (prompt_txt e @ [CHR 0x0A, CHR 0x0A] @
               ''Current codebase structure and content:'' @ [CHR 0x0A] @ codeContext))"

section \<open>Chat adapter: the single-shot call\<close>

definition fallbackText :: string where
  "fallbackText = ''Sorry, I could not generate a response.''"

definition createAssistantMessage ::
    "env \<Rightarrow> state \<Rightarrow> nat \<Rightarrow> string \<Rightarrow> Message \<times> state" where
  "createAssistantMessage e st p txt =
     (let (t0, st1) = Date_now e st;
          (t1, st2) = Date_now e st1;
          assistantMsg = \<lparr>msg_id = ''assistant-'' @ string_of_nat t0, role = Assistant,
                          content = txt, timestamp = t1, attachments = None\<rparr>;
          st3 = push_message st2 p assistantMsg;
          (t2, st4) = Date_now e st3
      in (assistantMsg,
          st4\<lparr>heap := (heap st4)(p := (heap st4 p)\<lparr>updatedAt := t2\<rparr>)\<rparr>))"

text \<open>
  The opening lines that \<open>sendMessage\<close> and the streaming path of
  \<open>sendMessageStream\<close> have in common: resolve the session, build the user message
  (attachments only when the list is not empty) and push it.
\<close>

definition appendUserMessage ::
    "env \<Rightarrow> state \<Rightarrow> string \<Rightarrow> string \<Rightarrow> Attachment list \<Rightarrow> nat \<times> Message \<times> state" where
  "appendUserMessage e st cid userMessage atts =
     (let (p, st1) = getOrCreateChatSession e st cid;
          (t0, st2) = Date_now e st1;
          (t1, st3) = Date_now e st2;
          userMsg = \<lparr>msg_id = ''user-'' @ string_of_nat t0, role = User,
                     content = userMessage, timestamp = t1,
                     attachments = (if length atts > 0 then Some atts else None)\<rparr>
      in (p, userMsg, push_message st3 p userMsg))"

text \<open>\<open>completion.choices[0]?.message?.content\<close>\<close>

definition firstChoiceContent :: "string option list \<Rightarrow> string option" where
  "firstChoiceContent choices = (case choices of [] \<Rightarrow> None | c # _ \<Rightarrow> c)"

text \<open>\<open>response.content.map((part) => (part.type === "text" ? part.text : "")).join("")\<close>\<close>

definition anthropicText :: "content_block list \<Rightarrow> string" where
  "anthropicText blocks =
     concat (map (\<lambda>part. case part of TextBlock t \<Rightarrow> t | OtherBlock \<Rightarrow> []) blocks)"

text \<open>
  \<open>(data?.candidates?.[0]?.content?.parts || []).map((part) => part.text || "").join("")\<close>
\<close>

definition geminiText :: "gemini_data \<Rightarrow> string" where
  "geminiText d =
     (let parts = (case g_candidates d of
                     [] \<Rightarrow> []
                   | c # _ \<Rightarrow> (case c of None \<Rightarrow> [] | Some ps \<Rightarrow> ps))
      in concat (map (\<lambda>part. or_else part []) parts))"

definition openaiRequest ::
    "env \<Rightarrow> AiConfig \<Rightarrow> string \<Rightarrow> Message list \<Rightarrow> bool \<Rightarrow> openai_request" where
  "openaiRequest e aiConfig systemPrompt msgs streaming =
     \<lparr>oa_apiKey = apiKey aiConfig,
      oa_baseURL = or_else (baseUrl aiConfig) ''https://api.openai.com/v1'',
      oa_model = model aiConfig,
      oa_messages = toOpenAIMessages (decodeBase64Utf8 e) systemPrompt msgs,
      oa_temperature = temperature aiConfig,
      oa_stream = streaming\<rparr>"

definition anthropicRequest ::
    "env \<Rightarrow> AiConfig \<Rightarrow> string \<Rightarrow> Message list \<Rightarrow> anthropic_request" where
  "anthropicRequest e aiConfig systemPrompt msgs =
     \<lparr>an_apiKey = apiKey aiConfig,
      an_baseURL = baseUrl aiConfig,
      an_model = model aiConfig,
      an_max_tokens = 4096,
      an_temperature = nullish_num (temperature aiConfig) (Fin 0.2),
      an_system = systemPrompt,
      an_messages = toAnthropicMessages (decodeBase64Utf8 e) msgs\<rparr>"

text \<open>\<open>.replace(/\/$/, "")\<close>: one trailing slash is removed.\<close>

definition stripTrailingSlash :: "string \<Rightarrow> string" where
  "stripTrailingSlash s = (if s \<noteq> [] \<and> last s = CHR ''/'' then butlast s else s)"

definition geminiUrl :: "env \<Rightarrow> AiConfig \<Rightarrow> string" where
  "geminiUrl e aiConfig =
     stripTrailingSlash
       (or_else (baseUrl aiConfig) ''https://generativelanguage.googleapis.com/v1beta'') @
     ''/models/'' @ encodeURIComponent e (model aiConfig) @
     '':generateContent?key='' @ encodeURIComponent e (apiKey aiConfig)"

text \<open>
  The Gemini payload: the history is mapped from \<open>session.messages.slice(0, -1)\<close>, the
  new turn is built from the user message itself (\<open>userMsg.attachments || []\<close>).
\<close>

definition geminiPayload ::
    "env \<Rightarrow> AiConfig \<Rightarrow> string \<Rightarrow> Message list \<Rightarrow> Message \<Rightarrow> gemini_payload" where
  "geminiPayload e aiConfig systemPrompt msgs userMsg =
     (let history = toGeminiHistory (decodeBase64Utf8 e) (butlast msgs);
          userParts = buildGeminiParts (decodeBase64Utf8 e) (content userMsg)
                        (case attachments userMsg of Some atts \<Rightarrow> atts | None \<Rightarrow> [])
      in \<lparr>contents = history @ [\<lparr>g_role = ''user'', g_parts = userParts\<rparr>],
          systemInstruction = systemPrompt,
          generationConfig_temperature = nullish_num (temperature aiConfig) (Fin 0.2)\<rparr>)"

text \<open>
  The dispatch on the provider: the value of \<open>assistantContent\<close> when the
  \<open>if\<close>/\<open>else if\<close>/\<open>else\<close> is left, or the error thrown inside it.
\<close>

definition providerDispatch ::
    "env \<Rightarrow> AiConfig \<Rightarrow> string \<Rightarrow> Message list \<Rightarrow> Message \<Rightarrow> error + string" where
  "providerDispatch e aiConfig systemPrompt msgs userMsg =
     (if provider aiConfig = OpenAI \<or> provider aiConfig = OpenRouter then
        (case openai_create e (openaiRequest e aiConfig systemPrompt msgs False) of
           Inl err \<Rightarrow> Inl err
         | Inr completion \<Rightarrow> Inr (or_else (firstChoiceContent completion) fallbackText))
      else if provider aiConfig = Anthropic then
        (case anthropic_create e (anthropicRequest e aiConfig systemPrompt msgs) of
           Inl err \<Rightarrow> Inl err
         | Inr response \<Rightarrow> Inr (trim (anthropicText response)))
      else
        (case gemini_fetch e (geminiUrl e aiConfig)
                (geminiPayload e aiConfig systemPrompt msgs userMsg) of
           Inl err \<Rightarrow> Inl err
         | Inr (ok, d) \<Rightarrow>
             if \<not> ok then Inl (Error (or_else (g_error_message d) ''Gemini request failed''))
             else Inr (trim (geminiText d))))"

definition sendMessage ::
    "env \<Rightarrow> state \<Rightarrow> string \<Rightarrow> string \<Rightarrow> Attachment list \<Rightarrow>
     (error + Message \<times> Message) \<times> state" where
  "sendMessage e st cid userMessage atts =
     (let (p, userMsg, st1) = appendUserMessage e st cid userMessage atts
      in case getAiConfig e st1 of
           (Inl err, st2) \<Rightarrow> (Inl err, st2)
         | (Inr aiConfig, st2) \<Rightarrow>
             (case getSystemPrompt e cid of
                Inl err \<Rightarrow> (Inl err, st2)
              | Inr systemPrompt \<Rightarrow>
                  (case providerDispatch e aiConfig systemPrompt
                          (messages (heap st2 p)) userMsg of
                     Inl err \<Rightarrow> (Inl err, st2)
                   | Inr generated \<Rightarrow>
                       (let assistantContent =
                              (if generated = [] then fallbackText else generated);
                            (assistantMsg, st3) =
                              createAssistantMessage e st2 p assistantContent
                        in (Inr (userMsg, assistantMsg), st3)))))"

section \<open>Chat adapter: the incremental call\<close>

datatype event_type = EvUser | EvAssistant | EvDone

record event =
  ev_type :: event_type
  ev_data :: Message

text \<open>
  The \<open>for await\<close> loop over the chunks: a chunk whose first choice carries a non-empty
  \<open>delta.content\<close> extends the buffer and yields a snapshot, stamped with a fresh reading
  of the clock. The result is the events yielded, the final buffer and the state.
\<close>

fun streamLoop ::
    "env \<Rightarrow> string \<Rightarrow> chunk list \<Rightarrow> string \<Rightarrow> state \<Rightarrow> event list \<times> string \<times> state" where
  "streamLoop e assistantId [] assistantContent st = ([], assistantContent, st)"
| "streamLoop e assistantId (c # cs) assistantContent st =
     (case firstChoiceContent c of
        None \<Rightarrow> streamLoop e assistantId cs assistantContent st
      | Some delta \<Rightarrow>
          if delta = [] then streamLoop e assistantId cs assistantContent st
          else
            (let acc = assistantContent @ delta;
                 (t, st1) = Date_now e st;
                 ev = \<lparr>ev_type = EvAssistant,
                       ev_data = \<lparr>msg_id = assistantId, role = Assistant, content = acc,
                                  timestamp = t, attachments = None\<rparr>\<rparr>;
                 (evs, final, st2) = streamLoop e assistantId cs acc st1
             in (ev # evs, final, st2)))"

text \<open>
  The generator, drained to its end: the events it yields in order, the error that ends
  it (if one does) and the state it leaves.
\<close>

definition sendMessageStream ::
    "env \<Rightarrow> state \<Rightarrow> string \<Rightarrow> string \<Rightarrow> Attachment list \<Rightarrow>
     (event list \<times> error option) \<times> state" where
  "sendMessageStream e st cid userMessage atts =
     (case getAiConfig e st of
        (Inl err, stEmpty) \<Rightarrow> (([], Some err), stEmpty)
      | (Inr aiConfig, stEmpty) \<Rightarrow>
          if provider aiConfig \<noteq> OpenAI \<and> provider aiConfig \<noteq> OpenRouter then
            (case sendMessage e stEmpty cid userMessage atts of
               (Inl err, st1) \<Rightarrow> (([], Some err), st1)
             | (Inr (userMsg, assistantMsg), st1) \<Rightarrow>
                 (([\<lparr>ev_type = EvUser, ev_data = userMsg\<rparr>,
                    \<lparr>ev_type = EvAssistant, ev_data = assistantMsg\<rparr>,
                    \<lparr>ev_type = EvDone, ev_data = assistantMsg\<rparr>], None), st1))
          else
            (let (p, userMsg, st1) = appendUserMessage e stEmpty cid userMessage atts;
                 userEv = \<lparr>ev_type = EvUser, ev_data = userMsg\<rparr>
             in case getSystemPrompt e cid of
                  Inl err \<Rightarrow> (([userEv], Some err), st1)
                | Inr systemPrompt \<Rightarrow>
                    (let request = openaiRequest e aiConfig systemPrompt
                                     (messages (heap st1 p)) True;
                         (t, st2) = Date_now e st1;
                         assistantId = ''assistant-'' @ string_of_nat t
                     in case openai_create_stream e request of
                          Inl err \<Rightarrow> (([userEv], Some err), st2)
                        | Inr (chunks, ending) \<Rightarrow>
                            (let (evs, assistantContent, st3) =
                                   streamLoop e assistantId chunks [] st2
                             in case ending of
                                  Some err \<Rightarrow> ((userEv # evs, Some err), st3)
                                | None \<Rightarrow>
                                    (let (finalAssistantMsg, st4) =
                                           createAssistantMessage e st3 p assistantContent
                                     in ((userEv # evs @
                                          [\<lparr>ev_type = EvDone, ev_data = finalAssistantMsg\<rparr>],
                                          None), st4))))))"

section \<open>Notions for the streaming claims\<close>

text \<open>
  The texts a stream carries: the non-empty \<open>delta.content\<close> of the first choice of
  each chunk, in order; and the buffer after each of them, starting from \<open>acc\<close>.
\<close>

fun deltas :: "chunk list \<Rightarrow> string list" where
  "deltas [] = []"
| "deltas (c # cs) =
     (case firstChoiceContent c of
        None \<Rightarrow> deltas cs
      | Some d \<Rightarrow> if d = [] then deltas cs else d # deltas cs)"

fun snapshots :: "string \<Rightarrow> string list \<Rightarrow> string list" where
  "snapshots acc [] = []"
| "snapshots acc (d # ds) = (acc @ d) # snapshots (acc @ d) ds"

section \<open>Concrete inputs\<close>

text \<open>
  A decoder that knows one string, the base64 text of \<open>hello\<close>, a document and an
  image attachment.
\<close>

definition witness_dec :: "string \<Rightarrow> string" where
  "witness_dec d = (if d = ''aGVsbG8='' then ''hello'' else [])"

definition doc1 :: Attachment where
  "doc1 = \<lparr>att_type = Document_att, att_data = ''aGVsbG8='', att_name = ''a.txt'',
           mimeType = ''text/plain'', att_size = 5\<rparr>"

definition img1 :: Attachment where
  "img1 = \<lparr>att_type = Image_att, att_data = ''iVBORw=='', att_name = ''p.png'',
           mimeType = ''image/png'', att_size = 4\<rparr>"

text \<open>
  An environment whose clock reads 5, 6, 7, ..., where every provider answers
  \<open>Hello\<close> (the stream in five chunks, three of them without text), and a state with
  an empty session store and a cached OpenAI configuration.
\<close>

definition cfg0 :: AiConfig where
  "cfg0 = \<lparr>provider = OpenAI, apiKey = ''k'', baseUrl = Some ''https://api.openai.com/v1'',
           model = ''gpt-4'', temperature = Some (Fin 0.2)\<rparr>"

definition env0 :: env where
  "env0 = \<lparr>clk = (\<lambda>k. 5 + k),
           decodeBase64Utf8 = witness_dec,
           encodeURIComponent = (\<lambda>s. s),
           prompt_txt = ''You are a coding assistant.'',
           getFileContentTree = (\<lambda>cid. Inr ''{}''),
           readConfigFile = Inl (ErrnoError ''ENOENT'' ''no such file or directory''),
           writeConfigFile = (\<lambda>c. None),
           openai_create = (\<lambda>r. Inr [Some ''Hello'']),
           openai_create_stream = (\<lambda>r. Inr ([[Some ''Hel''], [], [None], [Some ''''], [Some ''lo'']], None)),
           anthropic_create = (\<lambda>r. Inr [TextBlock ''Hello'']),
           gemini_fetch = (\<lambda>u p. Inr (True, \<lparr>g_error_message = None,
                                              g_candidates = [Some [Some ''Hello'']]\<rparr>))\<rparr>"

definition emptySession :: ChatSession where
  "emptySession = \<lparr>session_id = [], containerId = [], messages = [], createdAt = 0, updatedAt = 0\<rparr>"

definition stEmpty :: state where
  "stEmpty = \<lparr>heap = (\<lambda>a. emptySession), nextAddr = 0, chatSessions = [],
          cachedConfig = Some cfg0, tick = 0\<rparr>"

text \<open>
  A Gemini configuration and a conversation whose first user message carries an image.
\<close>

definition cfgGemini :: AiConfig where
  "cfgGemini = \<lparr>provider = GoogleGemini, apiKey = ''k'', baseUrl = None,
                model = ''gemini-pro'', temperature = None\<rparr>"

definition oldMsg :: Message where
  "oldMsg = \<lparr>msg_id = ''user-5'', role = User, content = ''look'', timestamp = 6,
             attachments = Some [img1]\<rparr>"

definition replyMsg :: Message where
  "replyMsg = \<lparr>msg_id = ''assistant-7'', role = Assistant, content = ''a picture'',
               timestamp = 8, attachments = None\<rparr>"

definition newMsg :: Message where
  "newMsg = \<lparr>msg_id = ''user-10'', role = User, content = ''and now?'', timestamp = 11,
             attachments = None\<rparr>"

text \<open>
  A state whose store holds one session for \<open>c1\<close> with two messages and a cached
  Gemini configuration; an environment whose context fetch fails; an environment whose
  configuration file selects Anthropic and whose Anthropic answer has no text but
  blanks; and the state of a process that has not read its configuration yet.
\<close>

definition stOne :: state where
  "stOne = \<lparr>heap = (\<lambda>a. emptySession)
                   (0 := \<lparr>session_id = ''c1-1'', containerId = ''c1'',
                           messages = [oldMsg, replyMsg], createdAt = 2, updatedAt = 9\<rparr>),
            nextAddr = 1, chatSessions = [(''c1-1'', 0)],
            cachedConfig = Some cfgGemini, tick = 4\<rparr>"

definition envContextFails :: env where
  "envContextFails = env0\<lparr>getFileContentTree := (\<lambda>cid. Inl (Error ''no such container''))\<rparr>"

definition envSilent :: env where
  "envSilent = env0\<lparr>anthropic_create := (\<lambda>r. Inr [OtherBlock, TextBlock ''  '']),
                    readConfigFile := Inr (emptyPartial\<lparr>p_provider := Some Anthropic,
                                                         p_apiKey := Some ''k''\<rparr>)\<rparr>"

definition stFresh :: state where
  "stFresh = \<lparr>heap = (\<lambda>a. emptySession), nextAddr = 0, chatSessions = [],
              cachedConfig = None, tick = 0\<rparr>"

text \<open>
  An environment whose stream carries no text at all, and the user message of the runs
  on the empty store.
\<close>

definition envNoText :: env where
  "envNoText = env0\<lparr>openai_create_stream := (\<lambda>r. Inr ([[None], [], [Some []]], None))\<rparr>"

definition userMsg8 :: Message where
  "userMsg8 = \<lparr>msg_id = ''user-8'', role = User, content = ''hi'', timestamp = 9,
               attachments = None\<rparr>"

section \<open>Properties of the content normalizer\<close>

lemma buildMessageContent_step_eq:
  "buildMessageContent_step dec cont a = cont @ [openai_part_of dec a]"
  by (cases "att_type a") (simp_all add: buildMessageContent_step_def openai_part_of_def)

lemma buildAnthropicContent_step_eq:
  "buildAnthropicContent_step dec cont a = cont @ [anthropic_part_of dec a]"
  by (cases "att_type a") (simp_all add: buildAnthropicContent_step_def anthropic_part_of_def)

lemma buildGeminiParts_step_eq:
  "buildGeminiParts_step dec parts a = parts @ [gemini_part_of dec a]"
  by (cases "att_type a") (simp_all add: buildGeminiParts_step_def gemini_part_of_def)

lemma buildMessageContent_foldl:
  "foldl (buildMessageContent_step dec) acc atts = acc @ map (openai_part_of dec) atts"
  by (induction atts arbitrary: acc) (simp_all add: buildMessageContent_step_eq)

lemma buildAnthropicContent_foldl:
  "foldl (buildAnthropicContent_step dec) acc atts = acc @ map (anthropic_part_of dec) atts"
  by (induction atts arbitrary: acc) (simp_all add: buildAnthropicContent_step_eq)

lemma buildGeminiParts_foldl:
  "foldl (buildGeminiParts_step dec) acc atts = acc @ map (gemini_part_of dec) atts"
  by (induction atts arbitrary: acc) (simp_all add: buildGeminiParts_step_eq)

lemma buildMessageContent_map:
  "buildMessageContent dec message atts = OText message # map (openai_part_of dec) atts"
  by (simp add: buildMessageContent_def buildMessageContent_foldl)

lemma buildAnthropicContent_map:
  "buildAnthropicContent dec message atts = AText message # map (anthropic_part_of dec) atts"
  by (simp add: buildAnthropicContent_def buildAnthropicContent_foldl)

lemma buildGeminiParts_map:
  "buildGeminiParts dec message atts = GText message # map (gemini_part_of dec) atts"
  by (simp add: buildGeminiParts_def buildGeminiParts_foldl)

text \<open>
  Claim C1, as the code has it. For every message and attachment list, each of the three
  builders returns the primary text part followed by one part per attachment, in the
  order of the list. So the document attachment at index \<open>i\<close> is the text part at index
  \<open>i + 1\<close> (immediately after the primary text part when it is the first attachment),
  its text is two line feeds, then \<open>Document "<name>" content:\<close>, a line feed and the
  decoded data, and no binary or file part stands for it.
\<close>

theorem document_attachment_inlined:
  assumes "i < length atts" and "att_type (atts ! i) = Document_att"
  shows "buildMessageContent dec message atts ! 0 = OText message \<and>
         length (buildMessageContent dec message atts) = Suc (length atts) \<and>
         buildMessageContent dec message atts ! Suc i =
           OText (documentText (att_name (atts ! i)) (dec (att_data (atts ! i)))) \<and>
         buildAnthropicContent dec message atts ! 0 = AText message \<and>
         length (buildAnthropicContent dec message atts) = Suc (length atts) \<and>
         buildAnthropicContent dec message atts ! Suc i =
           AText (documentText (att_name (atts ! i)) (dec (att_data (atts ! i)))) \<and>
         buildGeminiParts dec message atts ! 0 = GText message \<and>
         length (buildGeminiParts dec message atts) = Suc (length atts) \<and>
         buildGeminiParts dec message atts ! Suc i =
           GText (documentText (att_name (atts ! i)) (dec (att_data (atts ! i))))"
  using assms
  by (simp add: buildMessageContent_map buildAnthropicContent_map buildGeminiParts_map
        openai_part_of_def anthropic_part_of_def gemini_part_of_def)

theorem document_attachment_inlined_witness:
  "(1::nat) < length [img1, doc1] \<and> att_type ([img1, doc1] ! 1) = Document_att \<and>
   buildMessageContent witness_dec ''hi'' [img1, doc1] ! 2 =
     OText ([CHR 0x0A, CHR 0x0A] @ ''Document '' @ [CHR 0x22] @ ''a.txt'' @ [CHR 0x22] @
            '' content:'' @ [CHR 0x0A] @ ''hello'') \<and>
   buildAnthropicContent witness_dec ''hi'' [img1, doc1] ! 2 =
     AText ([CHR 0x0A, CHR 0x0A] @ ''Document '' @ [CHR 0x22] @ ''a.txt'' @ [CHR 0x22] @
            '' content:'' @ [CHR 0x0A] @ ''hello'') \<and>
   buildGeminiParts witness_dec ''hi'' [img1, doc1] ! 2 =
     GText ([CHR 0x0A, CHR 0x0A] @ ''Document '' @ [CHR 0x22] @ ''a.txt'' @ [CHR 0x22] @
            '' content:'' @ [CHR 0x0A] @ ''hello'')"
  using document_attachment_inlined [of 1 "[img1, doc1]" witness_dec "''hi''"]
  by (simp add: doc1_def img1_def witness_dec_def documentText_def numeral_2_eq_2)

text \<open>
  The claim as the specification words it fails twice. With the single document
  \<open>a.txt\<close>, no part of any provider's content has the text
  \<open>Document "a.txt" content:\<close>, line feed, \<open>hello\<close>: the text starts with two line
  feeds. With an image before the document, the part immediately after the primary
  text part is the image.
\<close>

theorem document_label_counterexample:
  "OText (specDocumentText (att_name doc1) (witness_dec (att_data doc1)))
     \<notin> set (buildMessageContent witness_dec ''hi'' [doc1]) \<and>
   AText (specDocumentText (att_name doc1) (witness_dec (att_data doc1)))
     \<notin> set (buildAnthropicContent witness_dec ''hi'' [doc1]) \<and>
   GText (specDocumentText (att_name doc1) (witness_dec (att_data doc1)))
     \<notin> set (buildGeminiParts witness_dec ''hi'' [doc1]) \<and>
   buildMessageContent witness_dec ''hi'' [img1, doc1] ! 1 =
     OImageUrl ''data:image/png;base64,iVBORw=='' \<and>
   buildAnthropicContent witness_dec ''hi'' [img1, doc1] ! 1 = AImage ''image/png'' ''iVBORw=='' \<and>
   buildGeminiParts witness_dec ''hi'' [img1, doc1] ! 1 = GInlineData ''image/png'' ''iVBORw==''"
  by (simp add: buildMessageContent_def buildAnthropicContent_def buildGeminiParts_def
        buildMessageContent_step_def buildAnthropicContent_step_def buildGeminiParts_step_def
        doc1_def img1_def witness_dec_def documentText_def specDocumentText_def)

section \<open>Properties of the session store\<close>

lemma find_Map_set_new:
  assumes "\<forall>x\<in>set (map snd kvs). P x \<longrightarrow> x = a" and "P a"
  shows "find P (map snd (Map_set kvs k a)) = Some a"
  using assms by (induction kvs) auto

lemma Map_set_mem: "(k, v) \<in> set (Map_set kvs k v)"
  by (induction kvs) auto

text \<open>
  Claim C9. A call of \<open>getOrCreateChatSession\<close> returns the first registered session
  whose \<open>containerId\<close> matches, leaving the state as it is; when there is none it
  allocates a new session without messages and registers it under its id. Either way a
  second call for the same \<open>containerId\<close> returns the same object and changes nothing.
\<close>

theorem getOrCreateChatSession_idempotent:
  assumes "getOrCreateChatSession e st cid = (a, st1)"
  shows "getOrCreateChatSession e st1 cid = (a, st1) \<and>
         find (\<lambda>x. containerId (heap st1 x) = cid) (map snd (chatSessions st1)) = Some a \<and>
         (case find (\<lambda>x. containerId (heap st x) = cid) (map snd (chatSessions st)) of
            Some existing \<Rightarrow> a = existing \<and> st1 = st
          | None \<Rightarrow> a = nextAddr st \<and> nextAddr st1 = Suc a \<and>
                    containerId (heap st1 a) = cid \<and> messages (heap st1 a) = [] \<and>
                    (cid @ ''-'' @ string_of_nat (clk e (tick st)), a) \<in> set (chatSessions st1))"
proof (cases "find (\<lambda>x. containerId (heap st x) = cid) (map snd (chatSessions st))")
  case (Some existing)
  with assms have "a = existing" "st1 = st"
    by (simp_all add: getOrCreateChatSession_def)
  with Some show ?thesis
    by (simp add: getOrCreateChatSession_def)
next
  case None
  let ?sid = "cid @ ''-'' @ string_of_nat (clk e (tick st))"
  let ?s = "\<lparr>session_id = ?sid, containerId = cid, messages = [],
             createdAt = clk e (Suc (tick st)), updatedAt = clk e (Suc (Suc (tick st)))\<rparr>"
  from None assms have a: "a = nextAddr st"
    and st1: "st1 = st\<lparr>tick := Suc (Suc (Suc (tick st))), heap := (heap st)(a := ?s), nextAddr := Suc a,
                 chatSessions := Map_set (chatSessions st) ?sid a\<rparr>"
    by (auto simp add: getOrCreateChatSession_def Date_now_def Let_def)
  from None have no: "\<forall>x\<in>set (map snd (chatSessions st)). containerId (heap st x) \<noteq> cid"
    by (simp add: find_None_iff)
  have f: "find (\<lambda>x. containerId (heap st1 x) = cid) (map snd (chatSessions st1)) = Some a"
    unfolding st1 using no
    by (simp add: find_Map_set_new)
  have "getOrCreateChatSession e st1 cid = (a, st1)"
    using f by (simp add: getOrCreateChatSession_def)
  moreover have "(?sid, a) \<in> set (chatSessions st1)"
    unfolding st1 by (simp add: Map_set_mem)
  ultimately show ?thesis using None f a st1 by simp
qed

theorem getOrCreateChatSession_idempotent_witness:
  "getOrCreateChatSession env0 stEmpty ''c1'' =
     (0, snd (getOrCreateChatSession env0 stEmpty ''c1'')) \<and>
   getOrCreateChatSession env0 (snd (getOrCreateChatSession env0 stEmpty ''c1'')) ''c1'' =
     (0, snd (getOrCreateChatSession env0 stEmpty ''c1'')) \<and>
   messages (heap (snd (getOrCreateChatSession env0 stEmpty ''c1'')) 0) = [] \<and>
   chatSessions (snd (getOrCreateChatSession env0 stEmpty ''c1'')) = [(''c1-5'', 0)]"
proof -
  have h: "getOrCreateChatSession env0 stEmpty ''c1'' =
     (0, snd (getOrCreateChatSession env0 stEmpty ''c1''))"
    by (simp add: getOrCreateChatSession_def stEmpty_def env0_def Date_now_def Let_def)
  have c: "chatSessions (snd (getOrCreateChatSession env0 stEmpty ''c1'')) = [(''c1-5'', 0)]"
    by (simp add: getOrCreateChatSession_def stEmpty_def env0_def Date_now_def Let_def string_of_nat.simps)
  from getOrCreateChatSession_idempotent [OF h] h c show ?thesis
    by (simp add: stEmpty_def)
qed

section \<open>Properties of the history translation\<close>

text \<open>
  Claim C3, as the code has it. In the Gemini history the role \<open>assistant\<close> becomes
  \<open>model\<close> and every other role \<open>user\<close>; the contents sent are the mapped history
  of the messages before the new one, followed by one separate \<open>user\<close> entry built from
  the new message and its attachments. In the mapped history a message without
  attachments, and every assistant message, is a single text part, while a user message
  that carries attachments is normalized by the same builder as the newest turn: its
  text part followed by one part per attachment.
\<close>

theorem gemini_history_translation:
  "map g_role (toGeminiHistory dec msgs) =
     map (\<lambda>m. if role m = Assistant then ''model'' else ''user'') msgs \<and>
   contents (geminiPayload e cfg sp (prior @ [userMsg]) userMsg) =
     toGeminiHistory (decodeBase64Utf8 e) prior @
     [\<lparr>g_role = ''user'',
       g_parts = buildGeminiParts (decodeBase64Utf8 e) (content userMsg)
                   (case attachments userMsg of Some atts \<Rightarrow> atts | None \<Rightarrow> [])\<rparr>] \<and>
   map g_parts (toGeminiHistory dec msgs) =
     map (\<lambda>m. case attachments m of
                 None \<Rightarrow> [GText (content m)]
               | Some atts \<Rightarrow>
                   if role m = Assistant then [GText (content m)]
                   else GText (content m) # map (gemini_part_of dec) atts) msgs"
proof -
  have r: "\<And>m. (role m = User) = (role m \<noteq> Assistant)"
    by (metis Role.exhaust Role.distinct(1))
  show ?thesis
    by (simp add: toGeminiHistory_def geminiPayload_def buildGeminiParts_map r
          split: option.splits)
qed

text \<open>
  The prior history is not plain text only: the first entry of the contents sent for a
  conversation whose first user message carried an image holds that image as inline
  data.
\<close>

theorem gemini_history_counterexample:
  "g_parts (contents (geminiPayload env0 cfgGemini ''sys'' [oldMsg, replyMsg, newMsg] newMsg) ! 0) =
     [GText ''look'', GInlineData ''image/png'' ''iVBORw=='']"
  by (simp add: geminiPayload_def toGeminiHistory_def buildGeminiParts_def
        buildGeminiParts_step_def oldMsg_def replyMsg_def newMsg_def img1_def env0_def)

section \<open>Properties of the configuration update\<close>

text \<open>
  The configuration update. \<open>normalizeConfig\<close> never returns an empty model and
  \<open>merged.temperature || 0\<close> is never \<open>NaN\<close>, so two of the four checks of
  \<open>updateAiConfig\<close> cannot fire; what remains is the API key check and the range check.
\<close>

lemma normalizeConfig_model_nonempty: "model (normalizeConfig raw) \<noteq> []"
  by (simp add: normalizeConfig_def or_else_def Let_def split: option.splits)

lemma or_num_not_NaN: "\<not> Number_isNaN (or_num x (Fin 0))"
  by (simp add: Number_isNaN_def or_num_def split: option.splits)

lemma updateAiConfig_checks:
  assumes "getAiConfig e st = (Inr current, st1)"
  shows "updateAiConfig e st update =
     (let merged = normalizeConfig (spread current update) in
      if apiKey merged = [] then (Inl (Error ''API key is required''), st1)
      else if (case temperature merged of
                 None \<Rightarrow> False
               | Some t \<Rightarrow> num_lt t (Fin 0) \<or> num_lt (Fin 2) t)
      then (Inl (Error ''Temperature must be between 0 and 2''), st1)
      else (case writeConfigFile e merged of
              Some werr \<Rightarrow> (Inl werr, st1\<lparr>cachedConfig := Some merged\<rparr>)
            | None \<Rightarrow> (Inr merged, st1\<lparr>cachedConfig := Some merged\<rparr>)))"
  using assms
  by (simp add: updateAiConfig_def Let_def normalizeConfig_model_nonempty or_num_not_NaN)

text \<open>
  Claim C8 at three updates of the cached configuration \<open>cfg0\<close>: an empty model and a
  blank model are replaced by \<open>gpt-4o-mini\<close>, and the temperature \<open>NaN\<close> is
  accepted and stored; none of the three is rejected.
\<close>

theorem updateAiConfig_accepts_invalid:
  "fst (updateAiConfig env0 stEmpty (emptyPartial\<lparr>p_model := Some []\<rparr>)) =
     Inr (cfg0\<lparr>model := ''gpt-4o-mini''\<rparr>) \<and>
   fst (updateAiConfig env0 stEmpty (emptyPartial\<lparr>p_model := Some ''  ''\<rparr>)) =
     Inr (cfg0\<lparr>model := ''gpt-4o-mini''\<rparr>) \<and>
   fst (updateAiConfig env0 stEmpty (emptyPartial\<lparr>p_temperature := Some NaN\<rparr>)) =
     Inr (cfg0\<lparr>temperature := Some NaN\<rparr>)"
  by (simp add: updateAiConfig_def getAiConfig_def stEmpty_def cfg0_def env0_def emptyPartial_def
        spread_def normalizeConfig_def Let_def or_else_def trim_def is_ws_def providerMetadata_def
        or_num_def Number_isNaN_def)

section \<open>Properties of the single-shot call\<close>

text \<open>What each step does to the state.\<close>

lemma getAiConfig_frame:
  assumes "getAiConfig e st = (r, st')"
  shows "heap st' = heap st \<and> chatSessions st' = chatSessions st \<and>
         nextAddr st' = nextAddr st \<and> tick st' = tick st"
  using assms
  by (auto simp: getAiConfig_def split: option.splits sum.splits)

lemma appendUserMessage_props:
  assumes "appendUserMessage e st cid txt atts = (p, um, st1)"
      and "getOrCreateChatSession e st cid = (p', sg)"
  shows "p = p' \<and>
         um = \<lparr>msg_id = ''user-'' @ string_of_nat (clk e (tick sg)), role = User,
               content = txt, timestamp = clk e (Suc (tick sg)),
               attachments = (if atts = [] then None else Some atts)\<rparr> \<and>
         heap st1 = (heap sg)(p := (heap sg p)\<lparr>messages := messages (heap sg p) @ [um]\<rparr>) \<and>
         chatSessions st1 = chatSessions sg \<and> nextAddr st1 = nextAddr sg \<and>
         cachedConfig st1 = cachedConfig sg \<and> tick st1 = Suc (Suc (tick sg))"
  using assms
  by (auto simp: appendUserMessage_def Date_now_def push_message_def Let_def)

lemma createAssistantMessage_props:
  assumes "createAssistantMessage e st p txt = (a, st')"
  shows "a = \<lparr>msg_id = ''assistant-'' @ string_of_nat (clk e (tick st)), role = Assistant,
              content = txt, timestamp = clk e (Suc (tick st)), attachments = None\<rparr> \<and>
         heap st' = (heap st)(p := (heap st p)\<lparr>messages := messages (heap st p) @ [a],
                                               updatedAt := clk e (Suc (Suc (tick st)))\<rparr>) \<and>
         chatSessions st' = chatSessions st \<and> nextAddr st' = nextAddr st \<and>
         cachedConfig st' = cachedConfig st \<and> tick st' = Suc (Suc (Suc (tick st)))"
  using assms
  by (auto simp: createAssistantMessage_def Date_now_def push_message_def Let_def)

lemma sendMessage_success:
  assumes "sendMessage e st cid txt atts = (Inr (u, a), st')"
  obtains p st1 st2 cfg sp g where
    "appendUserMessage e st cid txt atts = (p, u, st1)"
    "getAiConfig e st1 = (Inr cfg, st2)"
    "getSystemPrompt e cid = Inr sp"
    "providerDispatch e cfg sp (messages (heap st2 p)) u = Inr g"
    "createAssistantMessage e st2 p (if g = [] then fallbackText else g) = (a, st')"
  using assms
  by (auto simp: sendMessage_def Let_def split: prod.splits sum.splits)

lemma sendMessage_failure:
  assumes "sendMessage e st cid txt atts = (Inl err, st')"
  obtains p u st1 r where
    "appendUserMessage e st cid txt atts = (p, u, st1)"
    "getAiConfig e st1 = (r, st')"
  using assms
  by (auto simp: sendMessage_def Let_def split: prod.splits sum.splits)

lemma getOrCreateChatSession_updatedAt:
  assumes "getOrCreateChatSession e st cid = (p, sg)"
      and "mono (clk e)"
      and "\<forall>x\<in>set (map snd (chatSessions st)). updatedAt (heap st x) \<le> clk e (tick st)"
  shows "updatedAt (heap sg p) \<le> clk e (tick sg)"
proof (cases "find (\<lambda>x. containerId (heap st x) = cid) (map snd (chatSessions st))")
  case (Some existing)
  with assms(1) have "p = existing" "sg = st"
    by (simp_all add: getOrCreateChatSession_def)
  moreover from Some have "existing \<in> set (map snd (chatSessions st))"
    by (auto simp: find_Some_iff)
  ultimately show ?thesis using assms(3) by blast
next
  case None
  with assms(1) have "updatedAt (heap sg p) = clk e (Suc (Suc (tick st)))"
    and "tick sg = Suc (Suc (Suc (tick st)))"
    by (auto simp: getOrCreateChatSession_def Date_now_def Let_def)
  then show ?thesis using assms(2) by (simp add: monoD)
qed

text \<open>
  Claim C4. Whatever the provider, a call of \<open>sendMessage\<close> that returns has appended
  to the session resolved for the container exactly the returned user message and then
  the returned assistant message. The session's \<open>updatedAt\<close> does not decrease,
  provided the clock does not run backwards and no registered session carries an
  \<open>updatedAt\<close> later than the current reading of the clock.
\<close>

theorem sendMessage_appends_user_then_assistant:
  assumes "sendMessage e st cid txt atts = (Inr (u, a), st')"
      and "getOrCreateChatSession e st cid = (p, sg)"
  shows "messages (heap st' p) = messages (heap sg p) @ [u, a] \<and>
         role u = User \<and> content u = txt \<and> role a = Assistant \<and>
         (mono (clk e) \<and>
          (\<forall>x\<in>set (map snd (chatSessions st)). updatedAt (heap st x) \<le> clk e (tick st))
          \<longrightarrow> updatedAt (heap sg p) \<le> updatedAt (heap st' p))"
proof -
  from assms(1) obtain q st1 st2 cfg sp g where
    ap: "appendUserMessage e st cid txt atts = (q, u, st1)" and
    gc: "getAiConfig e st1 = (Inr cfg, st2)" and
    cr: "createAssistantMessage e st2 q (if g = [] then fallbackText else g) = (a, st')"
    by (rule sendMessage_success)
  note A = appendUserMessage_props [OF ap assms(2)]
  note G = getAiConfig_frame [OF gc]
  note C = createAssistantMessage_props [OF cr]
  from A have q: "q = p" by simp
  have msgs: "messages (heap st' p) = messages (heap sg p) @ [u, a]"
    using A G C by (simp add: q)
  have roles: "role u = User \<and> content u = txt \<and> role a = Assistant"
    using A C by simp
  have upd: "updatedAt (heap st' p) = clk e (Suc (Suc (Suc (Suc (tick sg)))))"
    using A G C by (simp add: q)
  have mono: "updatedAt (heap sg p) \<le> updatedAt (heap st' p)"
    if m: "mono (clk e)"
    and inv: "\<forall>x\<in>set (map snd (chatSessions st)). updatedAt (heap st x) \<le> clk e (tick st)"
  proof -
    have "updatedAt (heap sg p) \<le> clk e (tick sg)"
      by (rule getOrCreateChatSession_updatedAt [OF assms(2) m inv])
    also have "\<dots> \<le> clk e (Suc (Suc (Suc (Suc (tick sg)))))"
      using m by (simp add: monoD)
    finally show ?thesis by (simp add: upd)
  qed
  from msgs roles mono show ?thesis by blast
qed

text \<open>
  Claim C5. When \<open>sendMessage\<close> fails (reading the configuration, fetching the
  context or calling the provider), the store of sessions is exactly what it was after
  the user message was pushed: that message is the last one of the session and no
  assistant message follows it.
\<close>

theorem sendMessage_failure_keeps_user_message:
  assumes "sendMessage e st cid txt atts = (Inl err, st')"
      and "appendUserMessage e st cid txt atts = (p, u, st1)"
      and "getOrCreateChatSession e st cid = (p, sg)"
  shows "heap st' = heap st1 \<and> chatSessions st' = chatSessions st1 \<and>
         nextAddr st' = nextAddr st1 \<and> tick st' = tick st1 \<and>
         messages (heap st' p) = messages (heap sg p) @ [u] \<and>
         role u = User \<and> content u = txt"
proof -
  from assms(1) obtain q v s1 r where
    ap: "appendUserMessage e st cid txt atts = (q, v, s1)" and
    gc: "getAiConfig e s1 = (r, st')"
    by (rule sendMessage_failure)
  from ap assms(2) have s1: "s1 = st1" by simp
  note G = getAiConfig_frame [OF gc [unfolded s1]]
  note A = appendUserMessage_props [OF assms(2) assms(3)]
  from G A show ?thesis by simp
qed

text \<open>The definitions a run on concrete inputs unfolds.\<close>

lemmas run_defs =
  sendMessage_def appendUserMessage_def getOrCreateChatSession_def Date_now_def
  push_message_def getAiConfig_def getSystemPrompt_def providerDispatch_def
  createAssistantMessage_def Let_def firstChoiceContent_def or_else_def fallbackText_def
  anthropicText_def geminiText_def trim_def is_ws_def readConfig_def

theorem sendMessage_appends_user_then_assistant_witness:
  "sendMessage env0 stOne ''c1'' ''and now?'' [] =
     (Inr (\<lparr>msg_id = ''user-9'', role = User, content = ''and now?'', timestamp = 10,
             attachments = None\<rparr>,
           \<lparr>msg_id = ''assistant-11'', role = Assistant, content = ''Hello'', timestamp = 12,
             attachments = None\<rparr>),
      snd (sendMessage env0 stOne ''c1'' ''and now?'' [])) \<and>
   getOrCreateChatSession env0 stOne ''c1'' = (0, stOne) \<and>
   mono (clk env0) \<and>
   updatedAt (heap stOne 0) \<le> clk env0 (tick stOne) \<and>
   messages (heap (snd (sendMessage env0 stOne ''c1'' ''and now?'' [])) 0) =
     [oldMsg, replyMsg,
      \<lparr>msg_id = ''user-9'', role = User, content = ''and now?'', timestamp = 10,
        attachments = None\<rparr>,
      \<lparr>msg_id = ''assistant-11'', role = Assistant, content = ''Hello'', timestamp = 12,
        attachments = None\<rparr>] \<and>
   updatedAt (heap stOne 0) \<le> updatedAt (heap (snd (sendMessage env0 stOne ''c1'' ''and now?'' [])) 0)"
proof -
  have g: "getOrCreateChatSession env0 stOne ''c1'' = (0, stOne)"
    by (simp add: getOrCreateChatSession_def stOne_def)
  have s: "sendMessage env0 stOne ''c1'' ''and now?'' [] =
     (Inr (\<lparr>msg_id = ''user-9'', role = User, content = ''and now?'', timestamp = 10,
             attachments = None\<rparr>,
           \<lparr>msg_id = ''assistant-11'', role = Assistant, content = ''Hello'', timestamp = 12,
             attachments = None\<rparr>),
      snd (sendMessage env0 stOne ''c1'' ''and now?'' []))"
    by (simp add: run_defs stOne_def env0_def cfgGemini_def string_of_nat.simps)
  have m: "mono (clk env0)"
    by (simp add: mono_def env0_def)
  have i: "\<forall>x\<in>set (map snd (chatSessions stOne)). updatedAt (heap stOne x) \<le> clk env0 (tick stOne)"
    by (simp add: stOne_def env0_def)
  have h: "messages (heap stOne 0) = [oldMsg, replyMsg]"
    by (simp add: stOne_def)
  from sendMessage_appends_user_then_assistant [OF s g] m i g s h show ?thesis
    by (simp add: stOne_def env0_def)
qed

theorem sendMessage_failure_keeps_user_message_witness:
  "sendMessage envContextFails stEmpty ''c1'' ''hi'' [img1] =
     (Inl (Error ''no such container''), snd (sendMessage envContextFails stEmpty ''c1'' ''hi'' [img1])) \<and>
   appendUserMessage envContextFails stEmpty ''c1'' ''hi'' [img1] =
     (0, \<lparr>msg_id = ''user-8'', role = User, content = ''hi'', timestamp = 9,
          attachments = Some [img1]\<rparr>,
      snd (snd (appendUserMessage envContextFails stEmpty ''c1'' ''hi'' [img1]))) \<and>
   getOrCreateChatSession envContextFails stEmpty ''c1'' =
     (0, snd (getOrCreateChatSession envContextFails stEmpty ''c1'')) \<and>
   messages (heap (snd (sendMessage envContextFails stEmpty ''c1'' ''hi'' [img1])) 0) =
     [\<lparr>msg_id = ''user-8'', role = User, content = ''hi'', timestamp = 9,
       attachments = Some [img1]\<rparr>]"
proof -
  have s: "sendMessage envContextFails stEmpty ''c1'' ''hi'' [img1] =
     (Inl (Error ''no such container''), snd (sendMessage envContextFails stEmpty ''c1'' ''hi'' [img1]))"
    by (simp add: run_defs stEmpty_def env0_def envContextFails_def)
  have a: "appendUserMessage envContextFails stEmpty ''c1'' ''hi'' [img1] =
     (0, \<lparr>msg_id = ''user-8'', role = User, content = ''hi'', timestamp = 9,
          attachments = Some [img1]\<rparr>,
      snd (snd (appendUserMessage envContextFails stEmpty ''c1'' ''hi'' [img1])))"
    by (simp add: run_defs stEmpty_def env0_def envContextFails_def string_of_nat.simps)
  have g: "getOrCreateChatSession envContextFails stEmpty ''c1'' =
     (0, snd (getOrCreateChatSession envContextFails stEmpty ''c1''))"
    by (simp add: run_defs stEmpty_def env0_def envContextFails_def)
  have m: "messages (heap (snd (getOrCreateChatSession envContextFails stEmpty ''c1'')) 0) = []"
    by (simp add: run_defs stEmpty_def env0_def envContextFails_def)
  from sendMessage_failure_keeps_user_message [OF s a g]
  have "messages (heap (snd (sendMessage envContextFails stEmpty ''c1'' ''hi'' [img1])) 0) =
        messages (heap (snd (getOrCreateChatSession envContextFails stEmpty ''c1'')) 0) @
        [\<lparr>msg_id = ''user-8'', role = User, content = ''hi'', timestamp = 9,
          attachments = Some [img1]\<rparr>]"
    by blast
  with s a g m show ?thesis
    by simp
qed

lemma fallbackText_nonempty: "fallbackText \<noteq> []"
  by (simp add: fallbackText_def)

text \<open>
  Claim C6. The assistant message that \<open>sendMessage\<close> returns is never empty and is
  the last message of the session. When the provider's completion text is empty (for
  the OpenAI-compatible providers: absent, \<open>null\<close> or empty; for Anthropic and Gemini:
  empty after trimming), its content is the fixed fallback string.
\<close>

theorem sendMessage_never_empty:
  assumes "sendMessage e st cid txt atts = (Inr (u, a), st')"
      and "appendUserMessage e st cid txt atts = (p, um, st1)"
      and "getAiConfig e st1 = (Inr cfg, st2)"
      and "getSystemPrompt e cid = Inr sp"
  shows "content a \<noteq> [] \<and> messages (heap st' p) \<noteq> [] \<and> last (messages (heap st' p)) = a \<and>
         (\<forall>c. (provider cfg = OpenAI \<or> provider cfg = OpenRouter) \<and>
               openai_create e (openaiRequest e cfg sp (messages (heap st2 p)) False) = Inr c \<and>
               or_else (firstChoiceContent c) [] = []
               \<longrightarrow> content a = fallbackText) \<and>
         (\<forall>r. provider cfg = Anthropic \<and>
               anthropic_create e (anthropicRequest e cfg sp (messages (heap st2 p))) = Inr r \<and>
               trim (anthropicText r) = []
               \<longrightarrow> content a = fallbackText) \<and>
         (\<forall>d. provider cfg = GoogleGemini \<and>
               gemini_fetch e (geminiUrl e cfg)
                 (geminiPayload e cfg sp (messages (heap st2 p)) um) = Inr (True, d) \<and>
               trim (geminiText d) = []
               \<longrightarrow> content a = fallbackText)"
proof -
  from assms(1) obtain q s1 s2 cfg' sp' g where
    ap: "appendUserMessage e st cid txt atts = (q, u, s1)" and
    gc: "getAiConfig e s1 = (Inr cfg', s2)" and
    gp: "getSystemPrompt e cid = Inr sp'" and
    pd: "providerDispatch e cfg' sp' (messages (heap s2 q)) u = Inr g" and
    cr: "createAssistantMessage e s2 q (if g = [] then fallbackText else g) = (a, st')"
    by (rule sendMessage_success)
  from ap assms(2) have eq1: "q = p" "u = um" "s1 = st1" by simp_all
  from gc assms(3) eq1 have eq2: "cfg' = cfg" "s2 = st2" by simp_all
  from gp assms(4) have eq3: "sp' = sp" by simp
  note C = createAssistantMessage_props [OF cr]
  have ca: "content a = (if g = [] then fallbackText else g)"
    using C by simp
  then have ne: "content a \<noteq> []"
    by (simp add: fallbackText_nonempty)
  have ms: "messages (heap st' p) = messages (heap st2 p) @ [a]"
    using C by (simp add: eq1 eq2)
  have pd': "providerDispatch e cfg sp (messages (heap st2 p)) um = Inr g"
    using pd by (simp add: eq1 eq2 eq3)
  have o: "content a = fallbackText"
    if "provider cfg = OpenAI \<or> provider cfg = OpenRouter"
    and "openai_create e (openaiRequest e cfg sp (messages (heap st2 p)) False) = Inr c"
    and "or_else (firstChoiceContent c) [] = []" for c
    using pd' that ca
    by (auto simp: providerDispatch_def or_else_def split: option.splits if_splits)
  have an: "content a = fallbackText"
    if "provider cfg = Anthropic"
    and "anthropic_create e (anthropicRequest e cfg sp (messages (heap st2 p))) = Inr r"
    and "trim (anthropicText r) = []" for r
    using pd' that ca
    by (auto simp: providerDispatch_def)
  have ge: "content a = fallbackText"
    if "provider cfg = GoogleGemini"
    and "gemini_fetch e (geminiUrl e cfg)
           (geminiPayload e cfg sp (messages (heap st2 p)) um) = Inr (True, d)"
    and "trim (geminiText d) = []" for d
    using pd' that ca
    by (auto simp: providerDispatch_def)
  from ne ms o an ge show ?thesis
    by (intro conjI allI impI) auto
qed

theorem sendMessage_never_empty_witness:
  "sendMessage envSilent stFresh ''c1'' ''hi'' [] =
     (Inr (\<lparr>msg_id = ''user-8'', role = User, content = ''hi'', timestamp = 9,
             attachments = None\<rparr>,
           \<lparr>msg_id = ''assistant-10'', role = Assistant,
             content = ''Sorry, I could not generate a response.'', timestamp = 11,
             attachments = None\<rparr>),
      snd (sendMessage envSilent stFresh ''c1'' ''hi'' [])) \<and>
   provider (normalizeConfig (emptyPartial\<lparr>p_provider := Some Anthropic, p_apiKey := Some ''k''\<rparr>))
     = Anthropic \<and>
   trim (anthropicText [OtherBlock, TextBlock ''  '']) = [] \<and>
   last (messages (heap (snd (sendMessage envSilent stFresh ''c1'' ''hi'' [])) 0)) =
     \<lparr>msg_id = ''assistant-10'', role = Assistant,
      content = ''Sorry, I could not generate a response.'', timestamp = 11,
      attachments = None\<rparr>"
proof -
  let ?cfg = "normalizeConfig (emptyPartial\<lparr>p_provider := Some Anthropic, p_apiKey := Some ''k''\<rparr>)"
  let ?ap = "appendUserMessage envSilent stFresh ''c1'' ''hi'' []"
  let ?st1 = "snd (snd ?ap)"
  let ?st2 = "snd (getAiConfig envSilent ?st1)"
  let ?sp = "prompt_txt envSilent @ [CHR 0x0A, CHR 0x0A] @
               ''Current codebase structure and content:'' @ [CHR 0x0A] @ ''{}''"
  have s: "sendMessage envSilent stFresh ''c1'' ''hi'' [] =
     (Inr (\<lparr>msg_id = ''user-8'', role = User, content = ''hi'', timestamp = 9,
             attachments = None\<rparr>,
           \<lparr>msg_id = ''assistant-10'', role = Assistant,
             content = ''Sorry, I could not generate a response.'', timestamp = 11,
             attachments = None\<rparr>),
      snd (sendMessage envSilent stFresh ''c1'' ''hi'' []))"
    by (simp add: run_defs stFresh_def env0_def envSilent_def string_of_nat.simps
          normalizeConfig_def emptyPartial_def providerMetadata_def)
  have a: "?ap = (0, fst (snd ?ap), ?st1)"
    by (simp add: run_defs stFresh_def env0_def envSilent_def)
  have c: "getAiConfig envSilent ?st1 = (Inr ?cfg, ?st2)"
    by (simp add: run_defs stFresh_def env0_def envSilent_def)
  have p: "getSystemPrompt envSilent ''c1'' = Inr ?sp"
    by (simp add: getSystemPrompt_def env0_def envSilent_def)
  have pr: "provider ?cfg = Anthropic"
    by (simp add: normalizeConfig_def emptyPartial_def Let_def)
  have r: "anthropic_create envSilent (anthropicRequest envSilent ?cfg ?sp (messages (heap ?st2 0)))
             = Inr [OtherBlock, TextBlock ''  '']"
    by (simp add: env0_def envSilent_def)
  have t: "trim (anthropicText [OtherBlock, TextBlock ''  '']) = []"
    by (simp add: trim_def anthropicText_def is_ws_def)
  from sendMessage_never_empty [OF s a c p]
  have "last (messages (heap (snd (sendMessage envSilent stFresh ''c1'' ''hi'' [])) 0)) =
        \<lparr>msg_id = ''assistant-10'', role = Assistant,
         content = ''Sorry, I could not generate a response.'', timestamp = 11,
         attachments = None\<rparr>"
    by blast
  with s pr t show ?thesis
    by simp
qed

section \<open>Properties of the incremental call\<close>

lemma snapshots_length: "length (snapshots acc ds) = length ds"
  by (induction ds arbitrary: acc) simp_all

lemma snapshots_nth:
  "i < length ds \<Longrightarrow> snapshots acc ds ! i = acc @ concat (take (Suc i) ds)"
proof (induction ds arbitrary: acc i)
  case Nil
  then show ?case by simp
next
  case (Cons d ds)
  then show ?case by (cases i) simp_all
qed

lemma snapshots_longer: "x \<in> set (snapshots acc ds) \<Longrightarrow> length acc \<le> length x"
proof (induction ds arbitrary: acc)
  case Nil
  then show ?case by simp
next
  case (Cons d ds)
  from Cons.prems have "x = acc @ d \<or> x \<in> set (snapshots (acc @ d) ds)" by simp
  then show ?case
  proof
    assume "x = acc @ d" then show ?thesis by simp
  next
    assume "x \<in> set (snapshots (acc @ d) ds)"
    from Cons.IH [OF this] show ?thesis by simp
  qed
qed

lemma snapshots_sorted: "sorted (map length (snapshots acc ds))"
proof (induction ds arbitrary: acc)
  case Nil
  then show ?case by simp
next
  case (Cons d ds)
  have "\<forall>x\<in>set (snapshots (acc @ d) ds). length (acc @ d) \<le> length x"
    using snapshots_longer by blast
  with Cons.IH [of "acc @ d"] show ?case by simp
qed

lemma deltas_empty_iff:
  "deltas chunks = [] \<longleftrightarrow>
   (\<forall>c\<in>set chunks. firstChoiceContent c = None \<or> firstChoiceContent c = Some [])"
  by (induction chunks) (auto split: option.splits)

text \<open>
  The loop yields one assistant event per non-empty delta, each with the fixed id and
  the buffer so far, reads the clock once per event and touches nothing else.
\<close>

lemma streamLoop_props:
  assumes "streamLoop e aid chunks acc st = (evs, fin, st')"
  shows "map ev_type evs = replicate (length (deltas chunks)) EvAssistant \<and>
         map (\<lambda>ev. content (ev_data ev)) evs = snapshots acc (deltas chunks) \<and>
         (\<forall>ev\<in>set evs. msg_id (ev_data ev) = aid \<and> role (ev_data ev) = Assistant) \<and>
         fin = acc @ concat (deltas chunks) \<and>
         st' = st\<lparr>tick := tick st + length (deltas chunks)\<rparr>"
  using assms
proof (induction chunks arbitrary: acc st evs fin st')
  case Nil
  then show ?case by simp
next
  case (Cons c cs)
  show ?case
  proof (cases "firstChoiceContent c = None \<or> firstChoiceContent c = Some []")
    case True
    with Cons.prems have "streamLoop e aid cs acc st = (evs, fin, st')"
      by auto
    from Cons.IH [OF this] True show ?thesis by auto
  next
    case False
    then obtain d where d: "firstChoiceContent c = Some d" "d \<noteq> []" by auto
    obtain evs1 fin1 st2 where
      r: "streamLoop e aid cs (acc @ d) (st\<lparr>tick := Suc (tick st)\<rparr>) = (evs1, fin1, st2)"
      by (cases "streamLoop e aid cs (acc @ d) (st\<lparr>tick := Suc (tick st)\<rparr>)") auto
    from Cons.prems d r have
      evs: "evs = \<lparr>ev_type = EvAssistant,
                   ev_data = \<lparr>msg_id = aid, role = Assistant, content = acc @ d,
                              timestamp = clk e (tick st), attachments = None\<rparr>\<rparr> # evs1"
      and fin: "fin = fin1" and st': "st' = st2"
      by (simp_all add: Date_now_def Let_def)
    from Cons.IH [OF r] d show ?thesis
      by (simp add: evs fin st')
  qed
qed

text \<open>The streaming path when the context fetch succeeds and the stream ends normally.\<close>

lemma sendMessageStream_openai_run:
  assumes "getAiConfig e st = (Inr cfg, s0)"
      and "provider cfg = OpenAI \<or> provider cfg = OpenRouter"
      and "appendUserMessage e s0 cid txt atts = (p, um, st1)"
      and "getSystemPrompt e cid = Inr sp"
      and "openai_create_stream e (openaiRequest e cfg sp (messages (heap st1 p)) True)
             = Inr (chunks, None)"
      and "streamLoop e (''assistant-'' @ string_of_nat (clk e (tick st1))) chunks []
             (st1\<lparr>tick := Suc (tick st1)\<rparr>) = (aevs, acc, st3)"
      and "createAssistantMessage e st3 p acc = (fm, st4)"
  shows "sendMessageStream e st cid txt atts =
           ((\<lparr>ev_type = EvUser, ev_data = um\<rparr> # aevs @ [\<lparr>ev_type = EvDone, ev_data = fm\<rparr>],
             None), st4)"
  using assms
  by (auto simp: sendMessageStream_def Date_now_def Let_def)

text \<open>
  Claim C2. For an OpenAI-compatible configuration, when the context fetch succeeds and
  the stream ends normally, the drained generator ends without an error and has
  yielded one \<open>user\<close> event carrying the user message, then one \<open>assistant\<close>
  event per non-empty delta, then one \<open>done\<close> event. The \<open>i\<close>-th assistant event
  carries the concatenation of the first \<open>i + 1\<close> deltas, so the lengths do not
  shrink, and every one carries the id built from the clock reading taken before the
  stream was opened. The message of the \<open>done\<close> event holds the whole text and is the
  one appended to the session.
\<close>

theorem sendMessageStream_openai_sequence:
  assumes "getAiConfig e st = (Inr cfg, s0)"
      and "provider cfg = OpenAI \<or> provider cfg = OpenRouter"
      and "appendUserMessage e s0 cid txt atts = (p, um, st1)"
      and "getSystemPrompt e cid = Inr sp"
      and "openai_create_stream e (openaiRequest e cfg sp (messages (heap st1 p)) True)
             = Inr (chunks, None)"
      and "sendMessageStream e st cid txt atts = ((evs, outcome), st')"
  shows "outcome = None \<and>
         map ev_type evs = EvUser # replicate (length (deltas chunks)) EvAssistant @ [EvDone] \<and>
         ev_data (hd evs) = um \<and>
         (\<forall>i<length (deltas chunks).
            msg_id (ev_data (evs ! Suc i)) = ''assistant-'' @ string_of_nat (clk e (tick st1)) \<and>
            role (ev_data (evs ! Suc i)) = Assistant \<and>
            content (ev_data (evs ! Suc i)) = concat (take (Suc i) (deltas chunks))) \<and>
         sorted (map (\<lambda>ev. length (content (ev_data ev))) (butlast (tl evs))) \<and>
         role (ev_data (last evs)) = Assistant \<and>
         content (ev_data (last evs)) = concat (deltas chunks) \<and>
         messages (heap st' p) = messages (heap st1 p) @ [ev_data (last evs)]"
proof -
  let ?aid = "''assistant-'' @ string_of_nat (clk e (tick st1))"
  let ?n = "length (deltas chunks)"
  obtain aevs acc st3 where
    sl: "streamLoop e ?aid chunks [] (st1\<lparr>tick := Suc (tick st1)\<rparr>) = (aevs, acc, st3)"
    by (cases "streamLoop e ?aid chunks [] (st1\<lparr>tick := Suc (tick st1)\<rparr>)") auto
  obtain fm st4 where cr: "createAssistantMessage e st3 p acc = (fm, st4)"
    by (cases "createAssistantMessage e st3 p acc") auto
  from sendMessageStream_openai_run [OF assms(1-5) sl cr] assms(6)
  have evs: "evs = \<lparr>ev_type = EvUser, ev_data = um\<rparr> # aevs @ [\<lparr>ev_type = EvDone, ev_data = fm\<rparr>]"
    and out: "outcome = None" and st': "st' = st4"
    by simp_all
  note S = streamLoop_props [OF sl]
  note C = createAssistantMessage_props [OF cr]
  from S have len: "length aevs = ?n"
    by (metis length_map length_replicate)
  from S have types: "map ev_type aevs = replicate ?n EvAssistant" by simp
  from S have cont: "map (\<lambda>ev. content (ev_data ev)) aevs = snapshots [] (deltas chunks)" by simp
  from S have ids: "\<forall>ev\<in>set aevs. msg_id (ev_data ev) = ?aid \<and> role (ev_data ev) = Assistant"
    by simp
  from S have acc: "acc = concat (deltas chunks)" by simp
  from S have st3: "heap st3 = heap st1" by simp
  have snap: "msg_id (ev_data (evs ! Suc i)) = ?aid \<and> role (ev_data (evs ! Suc i)) = Assistant \<and>
              content (ev_data (evs ! Suc i)) = concat (take (Suc i) (deltas chunks))"
    if i: "i < ?n" for i
  proof -
    from i len have nth: "evs ! Suc i = aevs ! i"
      by (simp add: evs nth_append)
    from i len ids have "msg_id (ev_data (aevs ! i)) = ?aid \<and> role (ev_data (aevs ! i)) = Assistant"
      by simp
    moreover have "content (ev_data (aevs ! i)) = snapshots [] (deltas chunks) ! i"
      using i len cont by (metis nth_map)
    ultimately show ?thesis
      using i by (simp add: nth snapshots_nth)
  qed
  have "map (\<lambda>ev. length (content (ev_data ev))) aevs = map length (snapshots [] (deltas chunks))"
    using cont by (metis (no_types, lifting) map_map comp_apply map_eq_conv)
  then have srt: "sorted (map (\<lambda>ev. length (content (ev_data ev))) (butlast (tl evs)))"
    by (simp add: evs butlast_append snapshots_sorted)
  have fin: "role (ev_data (last evs)) = Assistant \<and> content (ev_data (last evs)) = concat (deltas chunks)"
    using C by (simp add: evs acc)
  have msgs: "messages (heap st' p) = messages (heap st1 p) @ [ev_data (last evs)]"
    using C by (simp add: evs st' st3)
  from out types snap srt fin msgs show ?thesis
    by (simp add: evs)
qed

lemmas stream_defs =
  sendMessageStream_def openaiRequest_def

theorem sendMessageStream_openai_sequence_witness:
  "getAiConfig env0 stEmpty = (Inr cfg0, stEmpty) \<and> provider cfg0 = OpenAI \<and>
   appendUserMessage env0 stEmpty ''c1'' ''hi'' [] =
     (0, userMsg8, snd (snd (appendUserMessage env0 stEmpty ''c1'' ''hi'' []))) \<and>
   deltas [[Some ''Hel''], [], [None], [Some ''''], [Some ''lo'']] = [''Hel'', ''lo''] \<and>
   fst (sendMessageStream env0 stEmpty ''c1'' ''hi'' []) =
     ([\<lparr>ev_type = EvUser, ev_data = userMsg8\<rparr>,
       \<lparr>ev_type = EvAssistant,
        ev_data = \<lparr>msg_id = ''assistant-10'', role = Assistant, content = ''Hel'',
                   timestamp = 11, attachments = None\<rparr>\<rparr>,
       \<lparr>ev_type = EvAssistant,
        ev_data = \<lparr>msg_id = ''assistant-10'', role = Assistant, content = ''Hello'',
                   timestamp = 12, attachments = None\<rparr>\<rparr>,
       \<lparr>ev_type = EvDone,
        ev_data = \<lparr>msg_id = ''assistant-13'', role = Assistant, content = ''Hello'',
                   timestamp = 14, attachments = None\<rparr>\<rparr>], None) \<and>
   messages (heap (snd (sendMessageStream env0 stEmpty ''c1'' ''hi'' [])) 0) =
     [userMsg8,
      \<lparr>msg_id = ''assistant-13'', role = Assistant, content = ''Hello'',
       timestamp = 14, attachments = None\<rparr>]"
proof -
  let ?ap = "appendUserMessage env0 stEmpty ''c1'' ''hi'' []"
  let ?st1 = "snd (snd ?ap)"
  let ?sp = "prompt_txt env0 @ [CHR 0x0A, CHR 0x0A] @
               ''Current codebase structure and content:'' @ [CHR 0x0A] @ ''{}''"
  let ?chunks = "[[Some ''Hel''], [], [None], [Some ''''], [Some ''lo'']]"
  let ?run = "sendMessageStream env0 stEmpty ''c1'' ''hi'' []"
  have c: "getAiConfig env0 stEmpty = (Inr cfg0, stEmpty)"
    by (simp add: getAiConfig_def stEmpty_def)
  have pr: "provider cfg0 = OpenAI"
    by (simp add: cfg0_def)
  have a: "?ap = (0, userMsg8, ?st1)"
    by (simp add: run_defs stEmpty_def env0_def userMsg8_def string_of_nat.simps)
  have p: "getSystemPrompt env0 ''c1'' = Inr ?sp"
    by (simp add: getSystemPrompt_def env0_def)
  have s: "openai_create_stream env0 (openaiRequest env0 cfg0 ?sp (messages (heap ?st1 0)) True)
             = Inr (?chunks, None)"
    by (simp add: env0_def)
  have d: "deltas ?chunks = [''Hel'', ''lo'']"
    by (simp add: firstChoiceContent_def)
  have r: "fst ?run =
     ([\<lparr>ev_type = EvUser, ev_data = userMsg8\<rparr>,
       \<lparr>ev_type = EvAssistant,
        ev_data = \<lparr>msg_id = ''assistant-10'', role = Assistant, content = ''Hel'',
                   timestamp = 11, attachments = None\<rparr>\<rparr>,
       \<lparr>ev_type = EvAssistant,
        ev_data = \<lparr>msg_id = ''assistant-10'', role = Assistant, content = ''Hello'',
                   timestamp = 12, attachments = None\<rparr>\<rparr>,
       \<lparr>ev_type = EvDone,
        ev_data = \<lparr>msg_id = ''assistant-13'', role = Assistant, content = ''Hello'',
                   timestamp = 14, attachments = None\<rparr>\<rparr>], None)"
    by (simp add: stream_defs run_defs stEmpty_def env0_def cfg0_def userMsg8_def
          string_of_nat.simps)
  have e: "?run = ((fst (fst ?run), snd (fst ?run)), snd ?run)"
    by simp
  have m1: "messages (heap ?st1 0) = [userMsg8]"
    by (simp add: run_defs stEmpty_def env0_def userMsg8_def string_of_nat.simps)
  from sendMessageStream_openai_sequence [OF c disjI1 [OF pr] a p s e]
  have "messages (heap (snd ?run) 0) = messages (heap ?st1 0) @ [ev_data (last (fst (fst ?run)))]"
    by blast
  with m1 r have "messages (heap (snd ?run) 0) =
     [userMsg8,
      \<lparr>msg_id = ''assistant-13'', role = Assistant, content = ''Hello'',
       timestamp = 14, attachments = None\<rparr>]"
    by simp
  with c pr a d r show ?thesis
    by blast
qed

text \<open>
  Claim C10. On the same path, when no chunk carries a non-empty delta, the generator
  yields the \<open>user\<close> event and the \<open>done\<close> event only, and the message of the
  \<open>done\<close> event, which is the one appended to the session, has empty content: the
  fallback string is not substituted.
\<close>

theorem sendMessageStream_openai_no_fallback:
  assumes "getAiConfig e st = (Inr cfg, s0)"
      and "provider cfg = OpenAI \<or> provider cfg = OpenRouter"
      and "appendUserMessage e s0 cid txt atts = (p, um, st1)"
      and "getSystemPrompt e cid = Inr sp"
      and "openai_create_stream e (openaiRequest e cfg sp (messages (heap st1 p)) True)
             = Inr (chunks, None)"
      and "\<forall>c\<in>set chunks. firstChoiceContent c = None \<or> firstChoiceContent c = Some []"
      and "sendMessageStream e st cid txt atts = ((evs, outcome), st')"
  shows "outcome = None \<and> map ev_type evs = [EvUser, EvDone] \<and>
         ev_data (evs ! 0) = um \<and>
         content (ev_data (evs ! 1)) = [] \<and> content (ev_data (evs ! 1)) \<noteq> fallbackText \<and>
         messages (heap st' p) = messages (heap st1 p) @ [ev_data (evs ! 1)]"
proof -
  let ?aid = "''assistant-'' @ string_of_nat (clk e (tick st1))"
  obtain aevs acc st3 where
    sl: "streamLoop e ?aid chunks [] (st1\<lparr>tick := Suc (tick st1)\<rparr>) = (aevs, acc, st3)"
    by (cases "streamLoop e ?aid chunks [] (st1\<lparr>tick := Suc (tick st1)\<rparr>)") auto
  obtain fm st4 where cr: "createAssistantMessage e st3 p acc = (fm, st4)"
    by (cases "createAssistantMessage e st3 p acc") auto
  from sendMessageStream_openai_run [OF assms(1-5) sl cr] assms(7)
  have evs: "evs = \<lparr>ev_type = EvUser, ev_data = um\<rparr> # aevs @ [\<lparr>ev_type = EvDone, ev_data = fm\<rparr>]"
    and out: "outcome = None" and st': "st' = st4"
    by simp_all
  from assms(6) have d: "deltas chunks = []"
    by (simp add: deltas_empty_iff)
  note S = streamLoop_props [OF sl]
  note C = createAssistantMessage_props [OF cr]
  from S d have aevs: "aevs = []" and acc: "acc = []" and st3: "heap st3 = heap st1"
    by simp_all
  from C show ?thesis
    by (simp add: evs out st' aevs acc st3 fallbackText_def)
qed

theorem sendMessageStream_openai_no_fallback_witness:
  "getAiConfig envNoText stEmpty = (Inr cfg0, stEmpty) \<and> provider cfg0 = OpenAI \<and>
   appendUserMessage envNoText stEmpty ''c1'' ''hi'' [] =
     (0, userMsg8, snd (snd (appendUserMessage envNoText stEmpty ''c1'' ''hi'' []))) \<and>
   firstChoiceContent [None] = None \<and> firstChoiceContent [] = None \<and>
   firstChoiceContent [Some []] = Some [] \<and>
   fst (sendMessageStream envNoText stEmpty ''c1'' ''hi'' []) =
     ([\<lparr>ev_type = EvUser, ev_data = userMsg8\<rparr>,
       \<lparr>ev_type = EvDone,
        ev_data = \<lparr>msg_id = ''assistant-11'', role = Assistant, content = [],
                   timestamp = 12, attachments = None\<rparr>\<rparr>], None) \<and>
   messages (heap (snd (sendMessageStream envNoText stEmpty ''c1'' ''hi'' [])) 0) =
     [userMsg8,
      \<lparr>msg_id = ''assistant-11'', role = Assistant, content = [],
       timestamp = 12, attachments = None\<rparr>]"
proof -
  let ?ap = "appendUserMessage envNoText stEmpty ''c1'' ''hi'' []"
  let ?st1 = "snd (snd ?ap)"
  let ?sp = "prompt_txt envNoText @ [CHR 0x0A, CHR 0x0A] @
               ''Current codebase structure and content:'' @ [CHR 0x0A] @ ''{}''"
  let ?chunks = "[[None], [], [Some []]] :: chunk list"
  let ?run = "sendMessageStream envNoText stEmpty ''c1'' ''hi'' []"
  have c: "getAiConfig envNoText stEmpty = (Inr cfg0, stEmpty)"
    by (simp add: getAiConfig_def stEmpty_def)
  have pr: "provider cfg0 = OpenAI"
    by (simp add: cfg0_def)
  have a: "?ap = (0, userMsg8, ?st1)"
    by (simp add: run_defs stEmpty_def env0_def envNoText_def userMsg8_def string_of_nat.simps)
  have p: "getSystemPrompt envNoText ''c1'' = Inr ?sp"
    by (simp add: getSystemPrompt_def env0_def envNoText_def)
  have s: "openai_create_stream envNoText
             (openaiRequest envNoText cfg0 ?sp (messages (heap ?st1 0)) True)
             = Inr (?chunks, None)"
    by (simp add: env0_def envNoText_def)
  have f: "firstChoiceContent [None] = None \<and> firstChoiceContent [] = None \<and>
           firstChoiceContent [Some []] = Some []"
    by (simp add: firstChoiceContent_def)
  then have q: "\<forall>c\<in>set ?chunks. firstChoiceContent c = None \<or> firstChoiceContent c = Some []"
    by simp
  have r: "fst ?run =
     ([\<lparr>ev_type = EvUser, ev_data = userMsg8\<rparr>,
       \<lparr>ev_type = EvDone,
        ev_data = \<lparr>msg_id = ''assistant-11'', role = Assistant, content = [],
                   timestamp = 12, attachments = None\<rparr>\<rparr>], None)"
    by (simp add: stream_defs run_defs stEmpty_def env0_def envNoText_def cfg0_def userMsg8_def
          string_of_nat.simps)
  have e: "?run = ((fst (fst ?run), snd (fst ?run)), snd ?run)"
    by simp
  have m1: "messages (heap ?st1 0) = [userMsg8]"
    by (simp add: run_defs stEmpty_def env0_def envNoText_def userMsg8_def string_of_nat.simps)
  from sendMessageStream_openai_no_fallback [OF c disjI1 [OF pr] a p s q e]
  have "messages (heap (snd ?run) 0) = messages (heap ?st1 0) @ [ev_data (fst (fst ?run) ! 1)]"
    by blast
  with m1 r have "messages (heap (snd ?run) 0) =
     [userMsg8,
      \<lparr>msg_id = ''assistant-11'', role = Assistant, content = [],
       timestamp = 12, attachments = None\<rparr>]"
    by simp
  with c pr a f r show ?thesis
    by blast
qed

text \<open>
  Claim C7. For a provider other than \<open>openai\<close> and \<open>openrouter\<close>, a generator that
  ends without an error has yielded exactly three events, \<open>user\<close>, \<open>assistant\<close>
  and \<open>done\<close>; they carry the user message and, twice, the assistant message that the
  single-shot call returned.
\<close>

theorem sendMessageStream_degenerate:
  assumes "getAiConfig e st = (Inr cfg, s0)"
      and "provider cfg \<noteq> OpenAI" and "provider cfg \<noteq> OpenRouter"
      and "sendMessageStream e st cid txt atts = ((evs, None), st')"
  shows "map ev_type evs = [EvUser, EvAssistant, EvDone] \<and>
         ev_data (evs ! 1) = ev_data (evs ! 2) \<and>
         sendMessage e s0 cid txt atts = (Inr (ev_data (evs ! 0), ev_data (evs ! 1)), st')"
  using assms
  by (auto simp: sendMessageStream_def split: prod.splits sum.splits)

theorem sendMessageStream_degenerate_witness:
  "getAiConfig env0 stOne = (Inr cfgGemini, stOne) \<and>
   provider cfgGemini \<noteq> OpenAI \<and> provider cfgGemini \<noteq> OpenRouter \<and>
   fst (sendMessageStream env0 stOne ''c1'' ''and now?'' []) =
     ([\<lparr>ev_type = EvUser,
        ev_data = \<lparr>msg_id = ''user-9'', role = User, content = ''and now?'', timestamp = 10,
                   attachments = None\<rparr>\<rparr>,
       \<lparr>ev_type = EvAssistant,
        ev_data = \<lparr>msg_id = ''assistant-11'', role = Assistant, content = ''Hello'',
                   timestamp = 12, attachments = None\<rparr>\<rparr>,
       \<lparr>ev_type = EvDone,
        ev_data = \<lparr>msg_id = ''assistant-11'', role = Assistant, content = ''Hello'',
                   timestamp = 12, attachments = None\<rparr>\<rparr>], None) \<and>
   fst (sendMessage env0 stOne ''c1'' ''and now?'' []) =
     Inr (\<lparr>msg_id = ''user-9'', role = User, content = ''and now?'', timestamp = 10,
            attachments = None\<rparr>,
          \<lparr>msg_id = ''assistant-11'', role = Assistant, content = ''Hello'',
            timestamp = 12, attachments = None\<rparr>)"
proof -
  let ?run = "sendMessageStream env0 stOne ''c1'' ''and now?'' []"
  have c: "getAiConfig env0 stOne = (Inr cfgGemini, stOne)"
    by (simp add: getAiConfig_def stOne_def)
  have n1: "provider cfgGemini \<noteq> OpenAI" and n2: "provider cfgGemini \<noteq> OpenRouter"
    by (simp_all add: cfgGemini_def)
  have r: "fst ?run =
     ([\<lparr>ev_type = EvUser,
        ev_data = \<lparr>msg_id = ''user-9'', role = User, content = ''and now?'', timestamp = 10,
                   attachments = None\<rparr>\<rparr>,
       \<lparr>ev_type = EvAssistant,
        ev_data = \<lparr>msg_id = ''assistant-11'', role = Assistant, content = ''Hello'',
                   timestamp = 12, attachments = None\<rparr>\<rparr>,
       \<lparr>ev_type = EvDone,
        ev_data = \<lparr>msg_id = ''assistant-11'', role = Assistant, content = ''Hello'',
                   timestamp = 12, attachments = None\<rparr>\<rparr>], None)"
    by (simp add: stream_defs run_defs stOne_def env0_def cfgGemini_def string_of_nat.simps)
  then have e: "?run = ((fst (fst ?run), None), snd ?run)"
    by (metis prod.collapse snd_conv)
  from sendMessageStream_degenerate [OF c n1 n2 e]
  have "sendMessage env0 stOne ''c1'' ''and now?'' [] =
          (Inr (ev_data (fst (fst ?run) ! 0), ev_data (fst (fst ?run) ! 1)), snd ?run)"
    by blast
  with r have "fst (sendMessage env0 stOne ''c1'' ''and now?'' []) =
     Inr (\<lparr>msg_id = ''user-9'', role = User, content = ''and now?'', timestamp = 10,
            attachments = None\<rparr>,
          \<lparr>msg_id = ''assistant-11'', role = Assistant, content = ''Hello'',
            timestamp = 12, attachments = None\<rparr>)"
    by simp
  with c n1 n2 r show ?thesis
    by blast
qed

end
